theory Spec2Isabelle
  imports Main "HOL-Library.Word"
begin

unbundle bit_operations_syntax

section \<open>Machine types and library functions\<close>

text \<open>
  Both sketches target the ESP32 (M5StickC Plus 2): \<open>int\<close>, \<open>long\<close> and
  \<open>unsigned long\<close> are 32 bits wide, \<open>uint16_t\<close> is 16 bits wide. All of them are
  words here; \<open>+\<close>, \<open>-\<close> and \<open>*\<close> wrap, \<open>\<le>\<close>, \<open><\<close> and \<open>div\<close> on words are the
  unsigned operations that C++ uses once one operand is \<open>unsigned long\<close>, and \<open>sint\<close>
  reads a word as a signed \<open>int\<close>. Signed overflow (undefined in C++) is modelled as the
  wrap-around the hardware performs.
\<close>

type_synonym int32 = "32 word"
type_synonym ulong = "32 word"
type_synonym uint16 = "16 word"

text \<open>
  A \<open>char[n]\<close> member is the list of its \<open>n\<close> bytes. Reading it as a C string stops at
  the first NUL; an array without a NUL has no C string inside its bounds.
\<close>

definition NUL :: char where
  "NUL = CHR 0x00"

definition c_str :: "string \<Rightarrow> string" where
  "c_str bs = takeWhile (\<lambda>c. c \<noteq> NUL) bs"

definition terminated :: "string \<Rightarrow> bool" where
  "terminated bs = (NUL \<in> set bs)"

text \<open>\<open>String(const char *)\<close> applied to a \<open>char[n]\<close> member: \<open>None\<close> when the read
  would run past the end of the array.\<close>

definition String_chars :: "string \<Rightarrow> string option" where
  "String_chars arr = (if terminated arr then Some (c_str arr) else None)"

text \<open>\<open>strncpy(dst, src, n)\<close> (C standard library): copies at most \<open>n\<close> characters of the
  C string \<open>src\<close> and pads with NUL up to \<open>n\<close>; it writes no terminator when \<open>src\<close> has
  \<open>n\<close> or more characters. The result is the new content of \<open>dst[n]\<close>.\<close>

definition strncpy :: "nat \<Rightarrow> string \<Rightarrow> string" where
  "strncpy n src = take n (c_str src @ replicate n NUL)"

text \<open>The initialiser of a \<open>char[n]\<close> member from a literal: the rest is zero-filled.\<close>

definition char_array :: "nat \<Rightarrow> string \<Rightarrow> string" where
  "char_array n lit = take n (lit @ replicate n NUL)"

text \<open>\<open>String(int)\<close> (Arduino core): the decimal rendering.\<close>

definition digit_char :: "nat \<Rightarrow> char" where
  "digit_char d = ''0123456789'' ! d"

fun dec_nat :: "nat \<Rightarrow> string" where
  "dec_nat n = (if n < 10 then [digit_char n] else dec_nat (n div 10) @ [digit_char (n mod 10)])"

declare dec_nat.simps [simp del]

definition String_int :: "int \<Rightarrow> string" where
  "String_int i = (if i < 0 then CHR ''-'' # dec_nat (nat (- i)) else dec_nat (nat i))"

definition String_int32 :: "int32 \<Rightarrow> string" where
  "String_int32 w = String_int (sint w)"

definition String_uint16 :: "uint16 \<Rightarrow> string" where
  "String_uint16 w = String_int (uint w)"

text \<open>
  Modelled from the spec: \<open>String::toInt\<close> belongs to the Arduino core and is not under
  \<open>src/\<close>. The spec says that numeric fields are parsed with a
  non-numeric-input-becomes-zero fallback. The core implements it as \<open>atol\<close> on the
  string's buffer: leading white space is skipped, one optional sign is read, then the
  longest run of decimal digits; no digits give 0, and the result saturates at the
  bounds of \<open>long\<close>.
\<close>

definition isspace :: "char \<Rightarrow> bool" where
  "isspace c = (c \<in> set [CHR '' '', CHR 0x09, CHR 0x0A, CHR 0x0B, CHR 0x0C, CHR 0x0D])"

definition isdigit :: "char \<Rightarrow> bool" where
  "isdigit c = (c \<in> set ''0123456789'')"

definition digit_val :: "char \<Rightarrow> int" where
  "digit_val c = int (of_char c) - 48"

fun atol_digits :: "int \<Rightarrow> string \<Rightarrow> int" where
  "atol_digits acc [] = acc"
| "atol_digits acc (c # cs) =
     (if isdigit c then atol_digits (acc * 10 + digit_val c) cs else acc)"

definition atol :: "string \<Rightarrow> int" where
  "atol s =
     (let t = dropWhile isspace s;
          v = (case t of
                 [] \<Rightarrow> 0
               | c # r \<Rightarrow>
                   if c = CHR ''-'' then - atol_digits 0 r
                   else if c = CHR ''+'' then atol_digits 0 r
                   else atol_digits 0 t)
      in max (- (2 ^ 31)) (min (2 ^ 31 - 1) v))"

definition toInt :: "string \<Rightarrow> int32" where
  "toInt s = word_of_int (atol (c_str s))"

section \<open>The configurable sketch (page-turner.ino)\<close>

subsection \<open>Configuration record and globals\<close>

record Config =
  ssid :: string
  password :: string
  koReaderIP :: string
  koReaderPort :: int32
  aBtnClickAction :: int32
  aBtnHoldAction :: int32
  bBtnClickAction :: int32
  bBtnHoldAction :: int32
  keepScreenOn :: bool
  beepOnPress :: bool
  autoShutdownTime :: int32
  shutdownCountdownScreen :: bool
  shutdownCountdownBeep :: bool
  countdownTime :: int32

text \<open>The member initialisers of \<open>struct Config\<close>.\<close>

definition defaultConfig :: Config where
  "defaultConfig =
     \<lparr> ssid = char_array 32 ''defaultSSID'',
       password = char_array 32 ''defaultPass'',
       koReaderIP = char_array 16 ''192.168.1.100'',
       koReaderPort = 8080,
       aBtnClickAction = 1,
       aBtnHoldAction = 2,
       bBtnClickAction = 0,
       bBtnHoldAction = 3,
       keepScreenOn = True,
       beepOnPress = True,
       autoShutdownTime = 600,
       shutdownCountdownScreen = True,
       shutdownCountdownBeep = False,
       countdownTime = 10 \<rparr>"

datatype colour = GREEN | RED

datatype datum = top_left | middle_center

text \<open>
  Calls into the board, the display, the speaker, the HTTP client and the web server,
  in the order made. \<open>HttpGet url\<close> stands for \<open>http.begin(url); http.GET(); http.end()\<close>;
  \<open>ServerSend code\<close> for \<open>server.send(code, type, body)\<close> (the body is not recorded).
  Serial diagnostics are not recorded.
\<close>

datatype effect =
    HttpGet string
  | SpeakerStop
  | SpeakerTone nat nat
  | FillScreenBlack
  | SetCursor nat nat
  | SetTextSize nat
  | SetTextColor colour
  | Println string
  | DisplayClear
  | SetTextDatum datum
  | DrawString string nat nat
  | DisplayWakeup
  | DisplaySleep
  | PowerOff
  | ServerSend nat
  | Delay nat
  | Restart

text \<open>
  \<open>PoweredOff\<close> and \<open>Restarting\<close> end the session; \<open>Faulted\<close> marks a read of a
  \<open>char\<close> array that has no terminator (the C++ reads past the array).
\<close>

datatype run_status = Running | PoweredOff | Restarting | Faulted

text \<open>The globals of the sketch, the persisted image of \<open>Config\<close> in the EEPROM, and
  the calls made so far.\<close>

record state =
  config :: Config
  eeprom :: Config
  lastDisplayedText :: string
  lastActiveTime :: ulong
  lastScreenUpdateTime :: ulong
  pwrBtnpressStartTime :: ulong
  textColor :: colour
  lastRemainingSeconds :: int32
  lastBatteryLevel :: int32
  turnOnScreen :: bool
  delayToTurnOffScreen :: bool
  onCountdown :: bool
  screenStateBeforeCountdown :: bool
  status :: run_status
  trace :: "effect list"

definition emit :: "effect \<Rightarrow> state \<Rightarrow> state" where
  "emit e s = s\<lparr>trace := trace s @ [e]\<rparr>"

definition fault :: "state \<Rightarrow> state" where
  "fault s = s\<lparr>status := Faulted\<rparr>"

definition longPressDuration :: ulong where
  "longPressDuration = 500"

definition batteryThreshold :: int where
  "batteryThreshold = 5"

definition BEEP_SHUTDOWN_FREQ :: nat where "BEEP_SHUTDOWN_FREQ = 4000"
definition BEEP_SHUTDOWN_DURATION :: nat where "BEEP_SHUTDOWN_DURATION = 100"
definition BEEP_PRESSED_FREQ :: nat where "BEEP_PRESSED_FREQ = 8000"
definition BEEP_PRESSED_DURATION :: nat where "BEEP_PRESSED_DURATION = 20"
definition DEVICE_SSID :: string where "DEVICE_SSID = ''M5StickC-Plus2''"
definition DEVICE_PASSWORD :: string where "DEVICE_PASSWORD = ''12345678''"

text \<open>The state after static initialisation, over a given EEPROM image.\<close>

definition initial :: "Config \<Rightarrow> state" where
  "initial img =
     \<lparr> config = defaultConfig,
       eeprom = img,
       lastDisplayedText = [],
       lastActiveTime = 0,
       lastScreenUpdateTime = 0,
       pwrBtnpressStartTime = 0,
       textColor = GREEN,
       lastRemainingSeconds = - 1,
       lastBatteryLevel = - 1,
       turnOnScreen = True,
       delayToTurnOffScreen = False,
       onCountdown = False,
       screenStateBeforeCountdown = True,
       status = Running,
       trace = [] \<rparr>"

subsection \<open>Persistence\<close>

text \<open>\<open>EEPROM.put(0, config); EEPROM.commit()\<close>.\<close>

definition saveConfig :: "state \<Rightarrow> state" where
  "saveConfig s = s\<lparr>eeprom := config s\<rparr>"

text \<open>\<open>EEPROM.get(0, config)\<close> overwrites the whole record with the stored image;
  \<open>strcmp(config.ssid, "defaultSSID") == 0\<close> then looks at the loaded name.\<close>

definition loadConfig :: "state \<Rightarrow> state" where
  "loadConfig s =
     (let s1 = s\<lparr>config := eeprom s\<rparr>;
          s2 = (if c_str (ssid (config s1)) = ''defaultSSID'' then saveConfig s1 else s1)
      in s2\<lparr>delayToTurnOffScreen := \<not> keepScreenOn (config s2)\<rparr>)"

subsection \<open>Display\<close>

definition displayText :: "string \<Rightarrow> state \<Rightarrow> state" where
  "displayText text s =
     (if text \<noteq> lastDisplayedText s then
        (let s1 = emit FillScreenBlack s;
             s2 = emit (SetCursor 0 0) s1;
             s3 = emit (SetTextSize 1) s2;
             s4 = emit (SetTextColor (textColor s3)) s3;
             s5 = emit (Println text) s4
         in s5\<lparr>lastDisplayedText := text\<rparr>)
      else s)"

text \<open>The string literals of the sketch that are not ASCII, as their UTF-8 bytes.\<close>

definition TXT_COUNTDOWN :: string where
  "TXT_COUNTDOWN = [CHR 0xE5, CHR 0x85, CHR 0xB3, CHR 0xE6, CHR 0x9C, CHR 0xBA, CHR 0xE5, CHR 0x80, CHR 0x92, CHR 0xE8, CHR 0xAE, CHR 0xA1, CHR 0xE6, CHR 0x97, CHR 0xB6] @ '': ''"

definition TXT_SECONDS :: string where
  "TXT_SECONDS = '' '' @ [CHR 0xE7, CHR 0xA7, CHR 0x92]"

definition TXT_CONNECTED :: string where
  "TXT_CONNECTED = [CHR 0xE5, CHR 0xB7, CHR 0xB2, CHR 0xE8, CHR 0xBF, CHR 0x9E, CHR 0xE6, CHR 0x8E, CHR 0xA5] @ '' WiFi: ''"

definition TXT_DEVICE_IP :: string where
  "TXT_DEVICE_IP = [CHR 0x0A, CHR 0xE8, CHR 0xAE, CHR 0xBE, CHR 0xE5, CHR 0xA4, CHR 0x87] @ '' IP: ''"

definition TXT_KOREADER :: string where
  "TXT_KOREADER = [CHR 0x0A] @ ''KOReader: ''"

definition TXT_AP_NAME :: string where
  "TXT_AP_NAME = [CHR 0xE7, CHR 0x83, CHR 0xAD, CHR 0xE7, CHR 0x82, CHR 0xB9, CHR 0xE5, CHR 0x90, CHR 0x8D, CHR 0xE7, CHR 0xA7, CHR 0xB0] @ '': ''"

definition TXT_AP_PASS :: string where
  "TXT_AP_PASS = [CHR 0x0A, CHR 0xE7, CHR 0x83, CHR 0xAD, CHR 0xE7, CHR 0x82, CHR 0xB9, CHR 0xE5, CHR 0xAF, CHR 0x86, CHR 0xE7, CHR 0xA0, CHR 0x81] @ '': ''"

definition TXT_AP_IP :: string where
  "TXT_AP_IP = [CHR 0x0A] @ ''IP: ''"

definition TXT_BATTERY :: string where
  "TXT_BATTERY = [CHR 0x0A, CHR 0xE7, CHR 0x94, CHR 0xB5, CHR 0xE9, CHR 0x87, CHR 0x8F] @ '': ''"

text \<open>
  What one pass of \<open>loop\<close> reads from outside: the WiFi status and addresses, the battery
  level, the button flags set by \<open>StickCP2.update()\<close>, the level of the power-key pin,
  the value of \<open>millis()\<close> at each place that calls it, and the web request that
  \<open>server.handleClient()\<close> finds.
\<close>

record button =
  wasClicked :: bool
  wasHold :: bool

datatype request = NoRequest | GetRoot | PostSave "string \<rightharpoonup> string"

record inputs =
  wifiConnected :: bool
  wifiSSID :: string
  localIP :: string
  softAPIP :: string
  batteryLevel :: int32
  btnA :: button
  btnB :: button
  pwrPinLow :: bool
  millisScreen :: ulong
  millisBtnA :: ulong
  millisBtnB :: ulong
  millisPwrPin :: ulong
  millisPwrEvent :: ulong
  millisShutdown :: ulong
  webRequest :: request

definition drawInfoScreen :: "bool \<Rightarrow> string \<Rightarrow> string \<Rightarrow> string \<Rightarrow> int32 \<Rightarrow> state \<Rightarrow> state" where
  "drawInfoScreen connected wssid lip apip currentBatteryLevel s =
     (let r = (if connected then
                 (case String_chars (koReaderIP (config s)) of
                    None \<Rightarrow> None
                  | Some host \<Rightarrow>
                      Some (TXT_CONNECTED @ wssid @ TXT_DEVICE_IP @ lip @ TXT_KOREADER @ host
                              @ '':'' @ String_int32 (koReaderPort (config s)),
                            GREEN))
               else
                 Some (TXT_AP_NAME @ DEVICE_SSID @ TXT_AP_PASS @ DEVICE_PASSWORD
                         @ TXT_AP_IP @ apip,
                       RED))
      in case r of
           None \<Rightarrow> fault s
         | Some (info, col) \<Rightarrow>
             (let s1 = s\<lparr>textColor := col\<rparr>;
                  s2 = (if sint (lastBatteryLevel s1) < 0
                           \<or> batteryThreshold
                              \<le> \<bar>sint (currentBatteryLevel - lastBatteryLevel s1)\<bar>
                        then s1\<lparr>lastBatteryLevel := currentBatteryLevel\<rparr> else s1)
              in displayText
                   (info @ TXT_BATTERY @ String_int32 (lastBatteryLevel s2) @ ''%'') s2))"

subsection \<open>Action sender\<close>

definition sendRequest :: "bool \<Rightarrow> int32 \<Rightarrow> state \<Rightarrow> state" where
  "sendRequest connected action s =
     (if \<not> connected then s
      else
        (let suffix =
               (if action = 0 then Some ''/koreader/event/GotoViewRel/-1''
                else if action = 1 then Some ''/koreader/event/GotoViewRel/1''
                else if action = 2 then Some ''/koreader/event/FullRefresh''
                else if action = 3 then Some ''/koreader/event/ToggleFrontlight''
                else None)
         in case suffix of
              None \<Rightarrow> s
            | Some path \<Rightarrow>
                (case String_chars (koReaderIP (config s)) of
                   None \<Rightarrow> fault s
                 | Some host \<Rightarrow>
                     emit (HttpGet (''http://'' @ host @ '':''
                                      @ String_int32 (koReaderPort (config s)) @ path)) s)))"

subsection \<open>Provisioning server\<close>

text \<open>\<open>server.arg(name)\<close> is the empty string for a field that was not sent.\<close>

definition arg :: "(string \<rightharpoonup> string) \<Rightarrow> string \<Rightarrow> string" where
  "arg form name = (case form name of None \<Rightarrow> [] | Some v \<Rightarrow> v)"

definition hasArg :: "(string \<rightharpoonup> string) \<Rightarrow> string \<Rightarrow> bool" where
  "hasArg form name = (form name \<noteq> None)"

definition restart :: "state \<Rightarrow> state" where
  "restart s = (emit Restart s)\<lparr>status := Restarting\<rparr>"

text \<open>The page of \<open>handleRoot\<close> reads the three \<open>char\<close> arrays as C strings.\<close>

definition handleRoot :: "state \<Rightarrow> state" where
  "handleRoot s =
     (if terminated (ssid (config s)) \<and> terminated (password (config s))
         \<and> terminated (koReaderIP (config s))
      then emit (ServerSend 200) s else fault s)"

definition handleSave :: "(string \<rightharpoonup> string) \<Rightarrow> state \<Rightarrow> state" where
  "handleSave form s =
     (let c = (config s)
            \<lparr> ssid := strncpy 32 (arg form ''ssid''),
              password := strncpy 32 (arg form ''password''),
              koReaderIP := strncpy 16 (arg form ''koReaderIP''),
              koReaderPort := toInt (arg form ''koReaderPort''),
              aBtnClickAction := toInt (arg form ''aClick''),
              aBtnHoldAction := toInt (arg form ''aLong''),
              bBtnClickAction := toInt (arg form ''bClick''),
              bBtnHoldAction := toInt (arg form ''bLong''),
              keepScreenOn := hasArg form ''keepScreenOn'',
              beepOnPress := hasArg form ''beepOnPress'',
              autoShutdownTime := toInt (arg form ''autoShutdownTime''),
              shutdownCountdownScreen := hasArg form ''shutdownCountdownScreen'',
              shutdownCountdownBeep := hasArg form ''shutdownCountdownBeep'',
              countdownTime := toInt (arg form ''countdownTime'') \<rparr>;
          s1 = saveConfig (s\<lparr>config := c\<rparr>);
          s2 = emit (ServerSend 200) s1;
          s3 = emit (Delay 1000) s2
      in restart s3)"

definition handleClient :: "request \<Rightarrow> state \<Rightarrow> state" where
  "handleClient r s =
     (case r of NoRequest \<Rightarrow> s | GetRoot \<Rightarrow> handleRoot s | PostSave form \<Rightarrow> handleSave form s)"

subsection \<open>Button dispatcher\<close>

definition beepPressed :: "state \<Rightarrow> state" where
  "beepPressed s =
     (if beepOnPress (config s)
      then emit (SpeakerTone BEEP_PRESSED_FREQ BEEP_PRESSED_DURATION) (emit SpeakerStop s)
      else s)"

definition handleNormalBtnEvent :: "bool \<Rightarrow> button \<Rightarrow> ulong \<Rightarrow> int32 \<Rightarrow> int32 \<Rightarrow> state \<Rightarrow> state" where
  "handleNormalBtnEvent connected btn now clickAction holdAction s =
     (if \<not> connected then s
      else if wasClicked btn \<or> wasHold btn then
        (let s1 = beepPressed s;
             s2 = s1\<lparr>lastActiveTime := now, lastRemainingSeconds := - 1\<rparr>
         in if wasClicked btn then sendRequest connected clickAction s2
            else if wasHold btn then sendRequest connected holdAction s2
            else s2)
      else s)"

text \<open>\<open>isPWRBtnClicked\<close>: the pin is LOW while the key is down.\<close>

definition isPWRBtnClicked :: "bool \<Rightarrow> ulong \<Rightarrow> state \<Rightarrow> bool \<times> state" where
  "isPWRBtnClicked pinLow now s =
     (if pinLow then
        (False, if pwrBtnpressStartTime s = 0 then s\<lparr>pwrBtnpressStartTime := now\<rparr> else s)
      else if pwrBtnpressStartTime s \<noteq> 0 then
        (let pressDuration = now - pwrBtnpressStartTime s
         in (pressDuration < longPressDuration, s\<lparr>pwrBtnpressStartTime := 0\<rparr>))
      else (False, s))"

definition handlePWRBtnEvent :: "bool \<Rightarrow> ulong \<Rightarrow> ulong \<Rightarrow> state \<Rightarrow> state" where
  "handlePWRBtnEvent pinLow nowPin now s =
     (case isPWRBtnClicked pinLow nowPin s of
        (clicked, s1) \<Rightarrow>
          if clicked then
            (let s2 = s1\<lparr>lastActiveTime := now, lastRemainingSeconds := - 1\<rparr>;
                 s3 = beepPressed s2
             in s3\<lparr>turnOnScreen := \<not> turnOnScreen s3, delayToTurnOffScreen := False\<rparr>)
          else s1)"

subsection \<open>Idle timer\<close>

definition handleShutdownCountdown :: "ulong \<Rightarrow> ulong \<Rightarrow> state \<Rightarrow> state" where
  "handleShutdownCountdown currentTime inactiveTime s =
     (if shutdownCountdownScreen (config s) then
        (let s1 = (if \<not> onCountdown s then s\<lparr>screenStateBeforeCountdown := turnOnScreen s\<rparr>
                   else s);
             s2 = s1\<lparr>turnOnScreen := True, onCountdown := True\<rparr>;
             remainingSeconds = autoShutdownTime (config s2) - inactiveTime div 1000
         in if remainingSeconds \<noteq> lastRemainingSeconds s2 then
              (let s3 = (if shutdownCountdownBeep (config s2)
                         then emit (SpeakerTone BEEP_SHUTDOWN_FREQ BEEP_SHUTDOWN_DURATION) s2
                         else s2);
                   s4 = s3\<lparr>textColor := RED\<rparr>;
                   s5 = displayText
                          (TXT_COUNTDOWN @ String_int32 remainingSeconds @ TXT_SECONDS) s4
               in s5\<lparr>lastRemainingSeconds := remainingSeconds\<rparr>)
            else s2)
      else s)"

definition powerOff :: "state \<Rightarrow> state" where
  "powerOff s = (emit PowerOff s)\<lparr>status := PoweredOff\<rparr>"

text \<open>The two thresholds of \<open>handleAutoShutdown\<close>: products of \<open>int\<close>, converted to
  \<open>unsigned long\<close> by the comparison with \<open>inactiveTime\<close>.\<close>

definition shutdownThreshold :: "Config \<Rightarrow> ulong" where
  "shutdownThreshold c = autoShutdownTime c * 1000"

definition countdownThreshold :: "Config \<Rightarrow> ulong" where
  "countdownThreshold c = (autoShutdownTime c - countdownTime c) * 1000"

definition handleAutoShutdown :: "ulong \<Rightarrow> state \<Rightarrow> state" where
  "handleAutoShutdown now s =
     (let currentTime = now;
          inactiveTime = currentTime - lastActiveTime s
      in if shutdownThreshold (config s) \<le> inactiveTime then powerOff s
         else if countdownThreshold (config s) \<le> inactiveTime then
           handleShutdownCountdown currentTime inactiveTime s
         else if onCountdown s then
           s\<lparr>turnOnScreen := screenStateBeforeCountdown s, onCountdown := False\<rparr>
         else s)"

subsection \<open>Screen switch and main loop\<close>

definition handleScreenSwitch :: "inputs \<Rightarrow> state \<Rightarrow> state" where
  "handleScreenSwitch i s =
     (let s1 = (if delayToTurnOffScreen s \<and> \<not> keepScreenOn (config s)
                   \<and> 5000 < millisScreen i - lastActiveTime s
                then s\<lparr>turnOnScreen := False, delayToTurnOffScreen := False\<rparr> else s)
      in if turnOnScreen s1 then
           (let s2 = emit DisplayWakeup s1
            in if \<not> onCountdown s2
               then drawInfoScreen (wifiConnected i) (wifiSSID i) (localIP i) (softAPIP i)
                      (batteryLevel i) s2
               else s2)
         else emit DisplaySleep s1)"

text \<open>A step of \<open>loop\<close> runs only while the device is running: after a power-off, a
  restart or a fault nothing more of the pass is executed.\<close>

definition running :: "(state \<Rightarrow> state) \<Rightarrow> state \<Rightarrow> state" where
  "running f s = (if status s = Running then f s else s)"

definition loop :: "inputs \<Rightarrow> state \<Rightarrow> state" where
  "loop i s =
     (let s1 = running (handleScreenSwitch i) s;
          s2 = running (\<lambda>s. handleNormalBtnEvent (wifiConnected i) (btnA i) (millisBtnA i)
                               (aBtnClickAction (config s)) (aBtnHoldAction (config s)) s) s1;
          s3 = running (\<lambda>s. handleNormalBtnEvent (wifiConnected i) (btnB i) (millisBtnB i)
                               (bBtnClickAction (config s)) (bBtnHoldAction (config s)) s) s2;
          s4 = running (handlePWRBtnEvent (pwrPinLow i) (millisPwrPin i) (millisPwrEvent i)) s3;
          s5 = running (handleAutoShutdown (millisShutdown i)) s4
      in running (handleClient (webRequest i)) s5)"

section \<open>The fixed-function sketch (the second source file)\<close>

text \<open>
  The second sketch has its own \<open>Config\<close>, globals and functions under the same names
  as the first; here they carry the suffix \<open>0\<close> where the names would clash.
\<close>

definition DEFAULT_SSID :: string where "DEFAULT_SSID = ''M5StickC-Plus2''"
definition DEFAULT_PASS :: string where "DEFAULT_PASS = ''12345678''"
definition DEFAULT_IP :: string where "DEFAULT_IP = ''192.168.2.99''"
definition DEFAULT_PORT :: uint16 where "DEFAULT_PORT = 8080"
definition CONFIG_MAGIC :: uint16 where "CONFIG_MAGIC = 0xAA55"

definition ENABLE_BUTTON_BEEP :: bool where "ENABLE_BUTTON_BEEP = True"
definition ENABLE_COUNTDOWN_BEEP :: bool where "ENABLE_COUNTDOWN_BEEP = False"
definition ENABLE_SCREEN_PROMPT :: bool where "ENABLE_SCREEN_PROMPT = True"
definition SHUTDOWN_TIMEOUT :: ulong where "SHUTDOWN_TIMEOUT = 600000"
definition COUNTDOWN_START :: ulong where "COUNTDOWN_START = SHUTDOWN_TIMEOUT - 10000"
definition BEEP_FREQ :: nat where "BEEP_FREQ = 4000"
definition BEEP_DURATION :: nat where "BEEP_DURATION = 100"
definition BUTTON_FREQ :: nat where "BUTTON_FREQ = 8000"
definition BUTTON_DURATION :: nat where "BUTTON_DURATION = 20"

record DeviceConfig =
  magic :: uint16
  ssid0 :: string
  password0 :: string
  targetIP :: string
  targetPort :: uint16

record state0 =
  deviceConfig :: DeviceConfig
  eeprom0 :: DeviceConfig
  screenEnabled :: bool
  isAPMode :: bool
  lastActivityTime :: ulong
  lastBeepTime :: ulong
  lastScreenUpdate :: ulong
  lastRemainingSeconds0 :: int32
  lastSSID :: string
  lastIP :: string
  lastTarget :: string
  lastPress :: ulong
  status0 :: run_status
  trace0 :: "effect list"

definition emit0 :: "effect \<Rightarrow> state0 \<Rightarrow> state0" where
  "emit0 e s = s\<lparr>trace0 := trace0 s @ [e]\<rparr>"

definition fault0 :: "state0 \<Rightarrow> state0" where
  "fault0 s = s\<lparr>status0 := Faulted\<rparr>"

definition TXT_SHUTDOWN_IN :: string where
  "TXT_SHUTDOWN_IN = '' '' @ [CHR 0xE7, CHR 0xA7, CHR 0x92, CHR 0xE5, CHR 0x90, CHR 0x8E, CHR 0xE5, CHR 0x85, CHR 0xB3, CHR 0xE6, CHR 0x9C, CHR 0xBA]"

definition TXT_P0_CONNECTED :: string where
  "TXT_P0_CONNECTED = [CHR 0xE5, CHR 0xB7, CHR 0xB2, CHR 0xE8, CHR 0xBF, CHR 0x9E, CHR 0xE6, CHR 0x8E, CHR 0xA5] @ '' WIFI: ''"

definition TXT_P0_DEVICE_IP :: string where
  "TXT_P0_DEVICE_IP = [CHR 0xE8, CHR 0xAE, CHR 0xBE, CHR 0xE5, CHR 0xA4, CHR 0x87] @ '' IP: ''"

definition TXT_P0_KOREADER :: string where
  "TXT_P0_KOREADER = ''koreader: ''"

definition TXT_P0_FAILED :: string where
  "TXT_P0_FAILED = [CHR 0xE8, CHR 0xBF, CHR 0x9E, CHR 0xE6, CHR 0x8E, CHR 0xA5, CHR 0xE6, CHR 0x8C, CHR 0x87, CHR 0xE5, CHR 0xAE, CHR 0x9A] @ '' WIFI '' @ [CHR 0xE5, CHR 0xA4, CHR 0xB1, CHR 0xE8, CHR 0xB4, CHR 0xA5]"

definition TXT_P0_JOIN_AP :: string where
  "TXT_P0_JOIN_AP = [CHR 0xE8, CHR 0xAF, CHR 0xB7, CHR 0xE8, CHR 0xBF, CHR 0x9E, CHR 0xE6, CHR 0x8E, CHR 0xA5, CHR 0xE4, CHR 0xBB, CHR 0xA5, CHR 0xE4, CHR 0xB8, CHR 0x8B, CHR 0xE7, CHR 0x83, CHR 0xAD, CHR 0xE7, CHR 0x82, CHR 0xB9, CHR 0xE9, CHR 0x87, CHR 0x8D, CHR 0xE6, CHR 0x96, CHR 0xB0, CHR 0xE9, CHR 0x85, CHR 0x8D, CHR 0xE7, CHR 0xBD, CHR 0x91]"

definition TXT_P0_NAME :: string where
  "TXT_P0_NAME = [CHR 0xE5, CHR 0x90, CHR 0x8D, CHR 0xE7, CHR 0xA7, CHR 0xB0] @ '': ''"

definition TXT_P0_PASS :: string where
  "TXT_P0_PASS = [CHR 0xE5, CHR 0xAF, CHR 0x86, CHR 0xE7, CHR 0xA0, CHR 0x81] @ '': ''"

datatype request0 = NoRequest0 | GetPanel | GetForm | PostConfig "string \<rightharpoonup> string"

record inputs0 =
  connected0 :: bool
  localIP0 :: string
  pressedA :: bool
  pressedB :: bool
  pinCLow :: bool
  millisLoop :: ulong
  millisCCheck :: ulong
  millisCStore :: ulong
  displayWidth :: nat
  displayHeight :: nat
  webRequest0 :: request0

subsection \<open>Persistence\<close>

definition saveConfig0 :: "state0 \<Rightarrow> state0" where
  "saveConfig0 s =
     (let c = (deviceConfig s)\<lparr>magic := CONFIG_MAGIC\<rparr>
      in s\<lparr>deviceConfig := c, eeprom0 := c\<rparr>)"

text \<open>\<open>memset(&deviceConfig, 0, sizeof(deviceConfig))\<close>.\<close>

definition zeroedConfig :: DeviceConfig where
  "zeroedConfig =
     \<lparr> magic = 0, ssid0 = replicate 32 NUL, password0 = replicate 64 NUL,
       targetIP = replicate 16 NUL, targetPort = 0 \<rparr>"

definition loadConfig0 :: "state0 \<Rightarrow> state0" where
  "loadConfig0 s =
     (let s1 = s\<lparr>deviceConfig := eeprom0 s\<rparr>
      in if magic (deviceConfig s1) \<noteq> CONFIG_MAGIC then
           (let c = zeroedConfig
                  \<lparr> ssid0 := strncpy 32 DEFAULT_SSID,
                    password0 := strncpy 64 DEFAULT_PASS,
                    targetIP := strncpy 16 DEFAULT_IP,
                    targetPort := DEFAULT_PORT \<rparr>
            in saveConfig0 (s1\<lparr>deviceConfig := c\<rparr>))
         else s1)"

subsection \<open>Display\<close>

definition drawStatusScreen :: "bool \<Rightarrow> bool \<Rightarrow> string \<Rightarrow> state0 \<Rightarrow> state0" where
  "drawStatusScreen forceUpdate connected lip s =
     (case (if connected then String_chars (ssid0 (deviceConfig s)) else Some [],
            String_chars (targetIP (deviceConfig s))) of
        (Some currentSSID, Some host) \<Rightarrow>
          (let currentIP = lip;
               currentTarget = host @ '':'' @ String_uint16 (targetPort (deviceConfig s))
           in if \<not> forceUpdate \<and> currentSSID = lastSSID s \<and> currentIP = lastIP s
                 \<and> currentTarget = lastTarget s
              then s
              else
                (let s1 = s\<lparr>lastSSID := currentSSID, lastIP := currentIP,
                             lastTarget := currentTarget\<rparr>;
                     s2 = emit0 DisplayClear s1
                 in if connected then
                      (let s3 = emit0 (SetTextColor GREEN) s2;
                           s4 = emit0 (DrawString (TXT_P0_CONNECTED @ currentSSID) 0 10) s3;
                           s5 = emit0 (DrawString (TXT_P0_DEVICE_IP @ lip) 0 30) s4
                       in emit0 (DrawString (TXT_P0_KOREADER @ currentTarget) 0 50) s5)
                    else
                      (let s3 = emit0 (SetTextColor RED) s2;
                           s4 = emit0 (DrawString TXT_P0_FAILED 0 10) s3;
                           s5 = emit0 (DrawString TXT_P0_JOIN_AP 0 30) s4;
                           s6 = emit0 (SetTextColor GREEN) s5;
                           s7 = emit0 (DrawString (TXT_P0_NAME @ DEFAULT_SSID) 0 50) s6
                       in emit0 (DrawString (TXT_P0_PASS @ DEFAULT_PASS) 0 70) s7)))
      | _ \<Rightarrow> fault0 s)"

definition toggleScreen :: "bool \<Rightarrow> string \<Rightarrow> state0 \<Rightarrow> state0" where
  "toggleScreen connected lip s =
     (let s1 = s\<lparr>screenEnabled := \<not> screenEnabled s\<rparr>
      in if screenEnabled s1
         then drawStatusScreen True connected lip (emit0 DisplayWakeup s1)
         else emit0 DisplaySleep (emit0 DisplayClear s1))"

text \<open>\<open>isButtonCPressed\<close>, with its static \<open>lastPress\<close> in the state.\<close>

definition isButtonCPressed :: "bool \<Rightarrow> ulong \<Rightarrow> ulong \<Rightarrow> state0 \<Rightarrow> bool \<times> state0" where
  "isButtonCPressed pinLow nowCheck nowStore s =
     (if pinLow \<and> 500 < nowCheck - lastPress s then (True, s\<lparr>lastPress := nowStore\<rparr>)
      else (False, s))"

subsection \<open>Idle timer and action sender\<close>

definition handleShutdownCountdown0 :: "nat \<Rightarrow> nat \<Rightarrow> ulong \<Rightarrow> ulong \<Rightarrow> state0 \<Rightarrow> state0" where
  "handleShutdownCountdown0 w h currentTime inactiveTime s =
     (let s1 =
            (if ENABLE_SCREEN_PROMPT then
               (let sa = emit0 DisplayWakeup s;
                    remainingSeconds = 10 - (inactiveTime - COUNTDOWN_START) div 1000
                in if remainingSeconds \<noteq> lastRemainingSeconds0 sa then
                     (let sb = emit0 DisplayClear sa;
                          sc = emit0 (SetTextDatum middle_center) sb;
                          sd = emit0 (DrawString (String_int32 remainingSeconds @ TXT_SHUTDOWN_IN)
                                        (w div 2) (h div 2)) sc;
                          se = sd\<lparr>lastRemainingSeconds0 := remainingSeconds\<rparr>
                      in emit0 (SetTextDatum top_left) se)
                   else sa)
             else s)
      in if ENABLE_COUNTDOWN_BEEP \<and> 1000 \<le> currentTime - lastBeepTime s1
         then (emit0 (SpeakerTone BEEP_FREQ BEEP_DURATION) s1)\<lparr>lastBeepTime := currentTime\<rparr>
         else s1)"

definition sendTurnPageRequest :: "int32 \<Rightarrow> state0 \<Rightarrow> state0" where
  "sendTurnPageRequest turnPageSize s =
     (case String_chars (targetIP (deviceConfig s)) of
        None \<Rightarrow> fault0 s
      | Some host \<Rightarrow>
          emit0 (HttpGet (''http://'' @ host @ '':'' @ String_uint16 (targetPort (deviceConfig s))
                            @ ''/koreader/event/GotoViewRel/'' @ String_int32 turnPageSize)) s)"

subsection \<open>Provisioning server\<close>

definition restart0 :: "state0 \<Rightarrow> state0" where
  "restart0 s = (emit0 Restart s)\<lparr>status0 := Restarting\<rparr>"

text \<open>The form pages (\<open>/\<close> of the access point, \<open>/config\<close> of the station) read the
  three \<open>char\<close> arrays; the control panel page is a constant.\<close>

definition handleForm0 :: "state0 \<Rightarrow> state0" where
  "handleForm0 s =
     (if terminated (ssid0 (deviceConfig s)) \<and> terminated (password0 (deviceConfig s))
         \<and> terminated (targetIP (deviceConfig s))
      then emit0 (ServerSend 200) s else fault0 s)"

text \<open>The body shared by the handlers of \<open>POST /config\<close> and \<open>POST /update\<close>.\<close>

definition handleConfigPost :: "(string \<rightharpoonup> string) \<Rightarrow> state0 \<Rightarrow> state0" where
  "handleConfigPost form s =
     (let c = (deviceConfig s)
            \<lparr> ssid0 := strncpy 32 (arg form ''ssid''),
              password0 := strncpy 64 (arg form ''pass''),
              targetIP := strncpy 16 (arg form ''ip''),
              targetPort := ucast (toInt (arg form ''port'')) \<rparr>;
          s1 = saveConfig0 (s\<lparr>deviceConfig := c\<rparr>);
          s2 = emit0 (ServerSend 200) s1;
          s3 = emit0 (Delay 1000) s2
      in restart0 s3)"

definition handleClient0 :: "request0 \<Rightarrow> state0 \<Rightarrow> state0" where
  "handleClient0 r s =
     (case r of
        NoRequest0 \<Rightarrow> s
      | GetPanel \<Rightarrow> emit0 (ServerSend 200) s
      | GetForm \<Rightarrow> handleForm0 s
      | PostConfig form \<Rightarrow> handleConfigPost form s)"

subsection \<open>Main loop\<close>

definition powerOff0 :: "state0 \<Rightarrow> state0" where
  "powerOff0 s = (emit0 PowerOff s)\<lparr>status0 := PoweredOff\<rparr>"

definition running0 :: "(state0 \<Rightarrow> state0) \<Rightarrow> state0 \<Rightarrow> state0" where
  "running0 f s = (if status0 s = Running then f s else s)"

text \<open>The block of \<open>loop\<close> that handles buttons A and B.\<close>

definition handleButtons0 :: "inputs0 \<Rightarrow> ulong \<Rightarrow> state0 \<Rightarrow> state0" where
  "handleButtons0 i currentTime s =
     (if pressedA i \<or> pressedB i then
        (let s1 = s\<lparr>lastActivityTime := currentTime, lastRemainingSeconds0 := - 1\<rparr>;
             s2 = (if ENABLE_BUTTON_BEEP
                   then emit0 (SpeakerTone BUTTON_FREQ BUTTON_DURATION) (emit0 SpeakerStop s1)
                   else s1);
             s3 = (if pressedA i then sendTurnPageRequest 1 s2 else s2);
             s4 = (if pressedB i then running0 (sendTurnPageRequest (- 1)) s3 else s3)
         in running0 (\<lambda>s. if \<not> screenEnabled s
                           then emit0 DisplaySleep (emit0 DisplayClear s) else s) s4)
      else s)"

definition loop0 :: "inputs0 \<Rightarrow> state0 \<Rightarrow> state0" where
  "loop0 i s =
     (let currentTime = millisLoop i;
          inactiveTime = currentTime - lastActivityTime s;
          s1 = running0
                 (\<lambda>s. if SHUTDOWN_TIMEOUT \<le> inactiveTime then powerOff0 s
                       else if COUNTDOWN_START \<le> inactiveTime then
                         handleShutdownCountdown0 (displayWidth i) (displayHeight i)
                           currentTime inactiveTime s
                       else s) s;
          s2 = running0 (handleButtons0 i currentTime) s1;
          s3 = running0
                 (\<lambda>s. case isButtonCPressed (pinCLow i) (millisCCheck i) (millisCStore i) s of
                         (pressed, s') \<Rightarrow>
                           if pressed
                           then running0 (\<lambda>s. s\<lparr>lastActivityTime := currentTime\<rparr>)
                                  (toggleScreen (connected0 i) (localIP0 i) s')
                           else s') s2;
          s4 = running0
                 (\<lambda>s. if screenEnabled s \<and> 1000 \<le> currentTime - lastScreenUpdate s
                       then running0 (\<lambda>s. s\<lparr>lastScreenUpdate := currentTime\<rparr>)
                              (drawStatusScreen False (connected0 i) (localIP0 i) s)
                       else s) s3
      in running0 (handleClient0 (webRequest0 i)) s4)"

text \<open>The globals of the second sketch after static initialisation (all zero, apart
  from \<open>lastRemainingSeconds\<close>), over a given EEPROM image.\<close>

definition initial0 :: "DeviceConfig \<Rightarrow> state0" where
  "initial0 img =
     \<lparr> deviceConfig = zeroedConfig,
       eeprom0 = img,
       screenEnabled = False,
       isAPMode = False,
       lastActivityTime = 0,
       lastBeepTime = 0,
       lastScreenUpdate = 0,
       lastRemainingSeconds0 = - 1,
       lastSSID = [],
       lastIP = [],
       lastTarget = [],
       lastPress = 0,
       status0 = Running,
       trace0 = [] \<rparr>"

section \<open>Observations used by the properties\<close>

text \<open>The URLs of the outbound requests in a trace, in order.\<close>

fun http_urls :: "effect list \<Rightarrow> string list" where
  "http_urls [] = []"
| "http_urls (HttpGet u # es) = u # http_urls es"
| "http_urls (e # es) = http_urls es"

text \<open>
  A storage that was never written reads as bytes \<open>0xFF\<close> throughout: the names are 32
  and 16 bytes \<open>0xFF\<close> without terminator, every \<open>int\<close> is \<open>-1\<close>, every \<open>bool\<close> byte is
  non-zero, the 16-bit fields are \<open>0xFFFF\<close>.
\<close>

definition erasedImage :: Config where
  "erasedImage =
     \<lparr> ssid = replicate 32 (CHR 0xFF),
       password = replicate 32 (CHR 0xFF),
       koReaderIP = replicate 16 (CHR 0xFF),
       koReaderPort = - 1,
       aBtnClickAction = - 1,
       aBtnHoldAction = - 1,
       bBtnClickAction = - 1,
       bBtnHoldAction = - 1,
       keepScreenOn = True,
       beepOnPress = True,
       autoShutdownTime = - 1,
       shutdownCountdownScreen = True,
       shutdownCountdownBeep = True,
       countdownTime = - 1 \<rparr>"

definition erasedImage0 :: DeviceConfig where
  "erasedImage0 =
     \<lparr> magic = 0xFFFF, ssid0 = replicate 32 (CHR 0xFF), password0 = replicate 64 (CHR 0xFF),
       targetIP = replicate 16 (CHR 0xFF), targetPort = 0xFFFF \<rparr>"

text \<open>The record that \<open>loadConfig\<close> of the second sketch installs on a marker mismatch.\<close>

definition defaultDeviceConfig :: DeviceConfig where
  "defaultDeviceConfig =
     \<lparr> magic = CONFIG_MAGIC,
       ssid0 = char_array 32 DEFAULT_SSID,
       password0 = char_array 64 DEFAULT_PASS,
       targetIP = char_array 16 DEFAULT_IP,
       targetPort = DEFAULT_PORT \<rparr>"





text \<open>The branches of \<open>handleAutoShutdown\<close> below the power-off, as conditions on
  the idle time: the countdown window and the active window.\<close>

definition idleWindow :: "Config \<Rightarrow> ulong \<Rightarrow> bool" where
  "idleWindow c inactiveTime =
     (\<not> shutdownThreshold c \<le> inactiveTime \<and> countdownThreshold c \<le> inactiveTime)"

definition activeWindow :: "Config \<Rightarrow> ulong \<Rightarrow> bool" where
  "activeWindow c inactiveTime =
     (\<not> shutdownThreshold c \<le> inactiveTime \<and> \<not> countdownThreshold c \<le> inactiveTime)"

text \<open>The spec's reading of a misconfigured countdown, in its words: the start of the
  countdown window clamped to non-negative. It is not part of the source; the start
  that the source computes is \<open>countdownThreshold\<close>.\<close>

definition clampedCountdownStart :: "Config \<Rightarrow> int" where
  "clampedCountdownStart c = max 0 (sint (autoShutdownTime c) - sint (countdownTime c)) * 1000"

text \<open>
  Passes of \<open>loop\<close> during a countdown. A pass registers activity when a handler
  takes its input as activity: a click or hold of A or B while the WiFi is connected,
  or a click of the power key (a key going down, or a long press, is none). A request
  to \<open>/save\<close> ends the session. \<open>countdownPasses\<close> says of a list of passes that
  none registers activity or saves the form and that each idle-timer evaluation falls
  in the countdown window; \<open>passes\<close> runs them. \<open>countdownFrom s s'\<close> says that
  \<open>s'\<close> is still in the countdown of \<open>s\<close>, with the same saved screen state.
\<close>

definition registersActivity :: "inputs \<Rightarrow> state \<Rightarrow> bool" where
  "registersActivity i s =
     ((wifiConnected i
        \<and> (wasClicked (btnA i) \<or> wasHold (btnA i) \<or> wasClicked (btnB i) \<or> wasHold (btnB i)))
      \<or> fst (isPWRBtnClicked (pwrPinLow i) (millisPwrPin i) s))"

definition savesForm :: "request \<Rightarrow> bool" where
  "savesForm r = (case r of PostSave form \<Rightarrow> True | _ \<Rightarrow> False)"

fun countdownPasses :: "inputs list \<Rightarrow> state \<Rightarrow> bool" where
  "countdownPasses [] s = True"
| "countdownPasses (i # rest) s =
     (\<not> registersActivity i s \<and> \<not> savesForm (webRequest i)
      \<and> idleWindow (config s) (millisShutdown i - lastActiveTime s)
      \<and> countdownPasses rest (loop i s))"

fun passes :: "inputs list \<Rightarrow> state \<Rightarrow> state" where
  "passes [] s = s"
| "passes (i # rest) s = passes rest (loop i s)"

definition countdownFrom :: "state \<Rightarrow> state \<Rightarrow> bool" where
  "countdownFrom s s' =
     (config s' = config s \<and> lastActiveTime s' = lastActiveTime s \<and> onCountdown s'
      \<and> screenStateBeforeCountdown s' = screenStateBeforeCountdown s)"



section \<open>Example inputs\<close>

text \<open>
  Button A clicked with the WiFi down; a pass without input; button A pressed on the
  second sketch with the WiFi down.
\<close>

definition pressA :: button where "pressA = \<lparr>wasClicked = True, wasHold = False\<rparr>"

definition noPress :: button where "noPress = \<lparr>wasClicked = False, wasHold = False\<rparr>"

definition exInputs :: inputs where
  "exInputs =
     \<lparr> wifiConnected = False, wifiSSID = [], localIP = ''0.0.0.0'', softAPIP = ''192.168.4.1'',
       batteryLevel = 80, btnA = pressA, btnB = noPress, pwrPinLow = False,
       millisScreen = 595100, millisBtnA = 595100, millisBtnB = 595100, millisPwrPin = 595100,
       millisPwrEvent = 595100, millisShutdown = 595200, webRequest = NoRequest \<rparr>"

definition exIdleInputs :: inputs where
  "exIdleInputs =
     \<lparr> wifiConnected = True, wifiSSID = ''home'', localIP = ''192.168.1.50'', softAPIP = ''0.0.0.0'',
       batteryLevel = 80, btnA = noPress, btnB = noPress, pwrPinLow = False,
       millisScreen = 595000, millisBtnA = 595000, millisBtnB = 595000, millisPwrPin = 595000,
       millisPwrEvent = 595000, millisShutdown = 595000, webRequest = NoRequest \<rparr>"

text \<open>The power key going down during the countdown, 596 s after the last activity.\<close>

definition exKeyDown :: inputs where
  "exKeyDown =
     \<lparr> wifiConnected = True, wifiSSID = ''home'', localIP = ''192.168.1.50'', softAPIP = ''0.0.0.0'',
       batteryLevel = 80, btnA = noPress, btnB = noPress, pwrPinLow = True,
       millisScreen = 596000, millisBtnA = 596000, millisBtnB = 596000, millisPwrPin = 596000,
       millisPwrEvent = 596000, millisShutdown = 596000, webRequest = NoRequest \<rparr>"


definition exInputs0 :: inputs0 where
  "exInputs0 =
     \<lparr> connected0 = False, localIP0 = ''0.0.0.0'', pressedA = True, pressedB = False,
       pinCLow = False, millisLoop = 1000, millisCCheck = 1000, millisCStore = 1000,
       displayWidth = 240, displayHeight = 135, webRequest0 = NoRequest0 \<rparr>"


text \<open>
  The first sketch with its defaults, ten minutes of timeout and ten seconds of
  countdown: the screen switched off by the user, then 595 s idle. The same with the
  countdown prompt disabled, and with a countdown longer than the timeout. The second
  sketch after its first boot on an erased EEPROM.
\<close>

definition exCountdown :: state where
  "exCountdown = handleAutoShutdown 595000 ((initial defaultConfig)\<lparr>turnOnScreen := False\<rparr>)"

definition exNoPrompt :: state where
  "exNoPrompt =
     (initial (defaultConfig\<lparr>shutdownCountdownScreen := False\<rparr>))
       \<lparr>config := defaultConfig\<lparr>shutdownCountdownScreen := False\<rparr>, turnOnScreen := False\<rparr>"

definition exMisconfigured :: state where
  "exMisconfigured =
     (initial (defaultConfig\<lparr>autoShutdownTime := 10, countdownTime := 20\<rparr>))
       \<lparr>config := defaultConfig\<lparr>autoShutdownTime := 10, countdownTime := 20\<rparr>\<rparr>"

definition exBooted0 :: state0 where
  "exBooted0 = loadConfig0 (initial0 erasedImage0)"


section \<open>Arithmetic of the 32-bit timers\<close>

lemma unat_div_1000_bound: "unat ((x :: 32 word) div 1000) \<le> 4294967"
proof -
  have "unat x < 2 ^ 32" using unsigned_less [of x] by simp
  then have "unat x div 1000 \<le> 4294967" by simp
  then show ?thesis by (simp add: unat_div)
qed

lemma sint_div_1000: "sint ((x :: 32 word) div 1000) = int (unat x div 1000)"
proof -
  let ?q = "x div 1000"
  have b: "unat ?q \<le> 4294967" by (rule unat_div_1000_bound)
  have u: "uint ?q = int (unat ?q)" by (rule uint_nat)
  have b': "uint ?q \<le> 4294967" using b unfolding u by linarith
  have lt: "uint ?q < 2 ^ 31" using b' by simp
  have ge: "- (2 ^ 31) \<le> uint ?q" by (rule order_trans [of _ 0]) simp_all
  have "sint ?q = signed_take_bit 31 (uint ?q)"
    using sint_uint [of ?q] by simp
  also have "\<dots> = uint ?q" using ge lt by (rule signed_take_bit_int_eq_self)
  finally show ?thesis unfolding u by (simp add: unat_div)
qed

lemma remaining_seconds_value:
  fixes a t :: "32 word"
  assumes "int (unat t div 1000) < sint a"
  shows "sint (a - t div 1000) = sint a - int (unat t div 1000)"
proof -
  let ?d = "int (unat t div 1000)"
  have d0: "0 \<le> ?d" by simp
  have a_hi: "sint a < 2 ^ 31" using sint_lt [of a] by simp
  have "sint (a - t div 1000) = signed_take_bit 31 (sint a - sint (t div 1000))"
    by (simp add: sint_word_ariths)
  also have "\<dots> = signed_take_bit 31 (sint a - ?d)" by (simp only: sint_div_1000)
  also have "\<dots> = sint a - ?d"
  proof (rule signed_take_bit_int_eq_self)
    show "- (2 ^ 31) \<le> sint a - ?d" using assms by simp
    show "sint a - ?d < 2 ^ 31" using a_hi d0 by simp
  qed
  finally show ?thesis .
qed

lemma remaining_eq_iff:
  fixes a t l :: "32 word"
  assumes "int (unat t div 1000) < sint a"
  shows "(a - t div 1000 = l) \<longleftrightarrow> (sint l = sint a - int (unat t div 1000))"
proof
  assume "a - t div 1000 = l"
  then show "sint l = sint a - int (unat t div 1000)"
    using remaining_seconds_value [OF assms] by simp
next
  assume "sint l = sint a - int (unat t div 1000)"
  then have "sint l = sint (a - t div 1000)"
    using remaining_seconds_value [OF assms] by simp
  then show "a - t div 1000 = l" by (metis signed_word_eqI)
qed

lemma remaining0_shift:
  fixes t :: "32 word"
  assumes "590 \<le> unat t div 1000"
  shows "unat ((t - COUNTDOWN_START) div 1000) = unat t div 1000 - 590"
proof -
  have cs: "COUNTDOWN_START = 590000" by (simp add: COUNTDOWN_START_def SHUTDOWN_TIMEOUT_def)
  have ge: "590000 \<le> unat t" using assms by linarith
  have "unat (590000 :: 32 word) = 590000" by simp
  then have le: "(590000 :: 32 word) \<le> t" using ge by (simp add: word_le_nat_alt)
  have "unat (t - 590000) = unat t - 590000"
    using unat_sub [OF le] by simp
  then have "unat ((t - 590000) div 1000) = (unat t - 590000) div 1000"
    by (simp add: unat_div)
  also have "\<dots> = unat t div 1000 - 590" using ge by linarith
  finally show ?thesis unfolding cs .
qed

lemma remaining0_value:
  fixes t :: "32 word"
  assumes "590 \<le> unat t div 1000" "unat t div 1000 < 600"
  shows "sint (10 - (t - COUNTDOWN_START) div 1000) = 600 - int (unat t div 1000)"
proof -
  let ?q = "(t - COUNTDOWN_START) div 1000"
  have uq: "unat ?q = unat t div 1000 - 590" using assms(1) by (rule remaining0_shift)
  have "unat ?q \<le> 4294967" by (rule unat_div_1000_bound)
  have sq: "sint ?q = int (unat ?q)"
    using sint_div_1000 [of "t - COUNTDOWN_START"] by (simp add: unat_div)
  have "sint (10 - ?q) = signed_take_bit 31 (sint (10 :: 32 word) - sint ?q)"
    by (simp add: sint_word_ariths)
  also have "\<dots> = signed_take_bit 31 (10 - int (unat ?q))" unfolding sq by simp
  also have "\<dots> = 10 - int (unat ?q)"
  proof (rule signed_take_bit_int_eq_self)
    have p: "(2 :: int) ^ 31 = 2147483648" by simp
    have q10: "int (unat ?q) < 10" unfolding uq using assms by linarith
    show "- (2 ^ 31) \<le> 10 - int (unat ?q)" unfolding p using q10 by linarith
    show "10 - int (unat ?q) < 2 ^ 31" unfolding p by linarith
  qed
  also have "\<dots> = 600 - int (unat t div 1000)" unfolding uq using assms by linarith
  finally show ?thesis .
qed

lemma remaining0_eq_iff:
  fixes t l :: "32 word"
  assumes "590 \<le> unat t div 1000" "unat t div 1000 < 600"
  shows "(10 - (t - COUNTDOWN_START) div 1000 = l) \<longleftrightarrow> (sint l = 600 - int (unat t div 1000))"
  using remaining0_value [OF assms] by (metis signed_word_eqI)

lemma uint_of_nonneg:
  fixes a :: "32 word"
  assumes "0 \<le> sint a"
  shows "uint a = sint a"
proof -
  have "sint a < 2 ^ 31" using sint_lt [of a] by simp
  then have lt: "sint a < 2 ^ 32" by simp
  have "uint a = take_bit 32 (sint a)" using uint_sint [of a] by simp
  also have "\<dots> = sint a" using assms lt by (rule take_bit_int_eq_self)
  finally show ?thesis .
qed

lemma uint_times_1000:
  fixes a :: "32 word"
  assumes "0 \<le> sint a" "sint a * 1000 < 2 ^ 31"
  shows "uint (a * 1000) = sint a * 1000"
proof -
  have ua: "uint a = sint a" using assms(1) by (rule uint_of_nonneg)
  have "uint (a * 1000) = (uint a * uint (1000 :: 32 word)) mod 2 ^ 32"
    using uint_word_ariths(3) [of a 1000] by simp
  also have "\<dots> = (sint a * 1000) mod 2 ^ 32" unfolding ua by simp
  also have "\<dots> = sint a * 1000"
  proof (rule mod_pos_pos_trivial)
    show "0 \<le> sint a * 1000" using assms(1) by simp
    show "sint a * 1000 < 2 ^ 32" using assms(2) by simp
  qed
  finally show ?thesis .
qed

lemma uint_neg_product:
  fixes a c :: "32 word"
  assumes "sint a < sint c" "- (2 ^ 31) \<le> (sint a - sint c) * 1000"
  shows "uint ((a - c) * 1000) = 2 ^ 32 + (sint a - sint c) * 1000"
proof -
  let ?k = "(sint a - sint c) * 1000"
  have eq: "(a - c) * 1000 = (word_of_int ?k :: 32 word)"
    by simp
  have neg: "?k < 0" using assms(1) by simp
  have "uint (word_of_int ?k :: 32 word) = ?k mod 2 ^ 32"
    using uint_word_of_int [of ?k, where 'a = 32] by simp
  also have "\<dots> = (?k + 2 ^ 32) mod 2 ^ 32" by (simp only: mod_add_self2)
  also have "\<dots> = ?k + 2 ^ 32"
  proof (rule mod_pos_pos_trivial)
    show "0 \<le> ?k + 2 ^ 32" using assms(2) by simp
    show "?k + 2 ^ 32 < 2 ^ 32" using neg by simp
  qed
  finally show ?thesis unfolding eq by simp
qed


section \<open>The library functions\<close>

text \<open>\<open>String_int\<close> is the decimal rendering: reading the digits back gives the number.\<close>

lemma digit_cases: "d < 10 \<Longrightarrow> d = 0 \<or> d = 1 \<or> d = 2 \<or> d = 3 \<or> d = 4 \<or> d = 5 \<or> d = 6 \<or> d = 7 \<or> d = 8 \<or> d = (9::nat)"
  by arith

lemma digit_char_ok: "d < 10 \<Longrightarrow> isdigit (digit_char d) \<and> digit_val (digit_char d) = int d"
  using digit_cases [of d] by (auto simp: digit_char_def isdigit_def digit_val_def)

lemma atol_digits_dec_nat:
  "atol_digits acc (dec_nat n @ rest) = atol_digits (acc * 10 ^ length (dec_nat n) + int n) rest"
proof (induction n arbitrary: acc rest rule: dec_nat.induct)
  case (1 n)
  show ?case
  proof (cases "n < 10")
    case True
    then show ?thesis by (simp add: dec_nat.simps [of n] digit_char_ok)
  next
    case False
    have m: "n mod 10 < 10" by simp
    have "atol_digits acc (dec_nat n @ rest)
            = atol_digits acc (dec_nat (n div 10) @ (digit_char (n mod 10) # rest))"
      using False by (simp add: dec_nat.simps [of n])
    also have "\<dots> = atol_digits (acc * 10 ^ length (dec_nat (n div 10)) + int (n div 10))
                        (digit_char (n mod 10) # rest)"
      using False by (rule "1.IH")
    also have "\<dots> = atol_digits ((acc * 10 ^ length (dec_nat (n div 10)) + int (n div 10)) * 10
                                   + int (n mod 10)) rest"
      using digit_char_ok [OF m] by simp
    also have "(acc * 10 ^ length (dec_nat (n div 10)) + int (n div 10)) * 10 + int (n mod 10)
                 = acc * 10 ^ length (dec_nat n) + int n"
    proof -
      have "length (dec_nat n) = Suc (length (dec_nat (n div 10)))"
        using False by (simp add: dec_nat.simps [of n])
      moreover have "int (n div 10) * 10 + int (n mod 10) = int n"
        by (simp add: zdiv_int zmod_int)
      ultimately show ?thesis by (simp add: algebra_simps)
    qed
    finally show ?thesis .
  qed
qed

lemma String_int_decimal: "0 \<le> i \<Longrightarrow> atol_digits 0 (String_int i) = i"
  using atol_digits_dec_nat [of 0 "nat i" "[]"] by (simp add: String_int_def)

lemma String_int32_8080: "String_int32 8080 = ''8080''"
  by (simp add: String_int32_def String_int_def dec_nat.simps digit_char_def)

lemma String_int32_1: "String_int32 1 = ''1''"
  by (simp add: String_int32_def String_int_def dec_nat.simps digit_char_def)

lemma String_int32_m1: "String_int32 (- 1) = ''-1''"
  by (simp add: String_int32_def String_int_def dec_nat.simps digit_char_def)

lemma String_uint16_8080: "String_uint16 8080 = ''8080''"
  by (simp add: String_uint16_def String_int_def dec_nat.simps digit_char_def)

lemma String_int_5: "String_int 5 = ''5''"
  by (simp add: String_int_def dec_nat.simps digit_char_def)

lemma String_int32_5: "String_int32 5 = ''5''"
  by (simp add: String_int32_def String_int_5)

lemma toInt_7: "toInt ''7'' = 7"
  by (simp add: toInt_def atol_def c_str_def NUL_def isspace_def isdigit_def digit_val_def)
















text \<open>\<open>strncpy\<close> always fills the array; it leaves a terminator only for a source
  shorter than the array.\<close>

lemma c_str_no_NUL: "NUL \<notin> set lit \<Longrightarrow> c_str lit = lit"
  by (auto simp: c_str_def)

lemma length_strncpy: "length (strncpy n src) = n"
  by (simp add: strncpy_def)

lemma NUL_in_take_append_replicate:
  "NUL \<notin> set xs \<Longrightarrow> NUL \<in> set (take n (xs @ replicate n NUL)) \<longleftrightarrow> length xs < n"
  by (auto simp: set_replicate_conv_if dest: in_set_takeD)

lemma terminated_strncpy: "terminated (strncpy n src) \<longleftrightarrow> length (c_str src) < n"
proof -
  have "NUL \<notin> set (c_str src)"
    by (auto simp: c_str_def dest: set_takeWhileD)
  then show ?thesis
    unfolding terminated_def strncpy_def by (rule NUL_in_take_append_replicate)
qed

lemma strncpy_literal: "NUL \<notin> set lit \<Longrightarrow> strncpy n lit = char_array n lit"
  by (simp add: strncpy_def char_array_def c_str_no_NUL)

lemma strncpy_32_a: "strncpy 32 (replicate 32 (CHR ''a'')) = replicate 32 (CHR ''a'')"
  by (simp add: strncpy_def c_str_def NUL_def)

lemma default_host: "String_chars (koReaderIP defaultConfig) = Some ''192.168.1.100''"
  by (simp add: String_chars_def defaultConfig_def char_array_def terminated_def c_str_def NUL_def)

lemma default_host0: "String_chars (targetIP defaultDeviceConfig) = Some ''192.168.2.99''"
  by (simp add: String_chars_def defaultDeviceConfig_def DEFAULT_IP_def char_array_def
      terminated_def c_str_def NUL_def)


section \<open>Outbound requests in the trace\<close>

lemma http_urls_append: "http_urls (xs @ ys) = http_urls xs @ http_urls ys"
  by (induction xs rule: http_urls.induct) simp_all

lemma http_urls_emit:
  "http_urls (trace (emit e s)) = http_urls (trace s) @ http_urls [e]"
  by (simp add: emit_def http_urls_append)

lemma displayText_urls: "http_urls (trace (displayText t s)) = http_urls (trace s)"
  by (simp add: displayText_def Let_def emit_def http_urls_append)

lemma drawInfoScreen_urls:
  "http_urls (trace (drawInfoScreen c w l a b s)) = http_urls (trace s)"
  by (simp add: drawInfoScreen_def Let_def fault_def displayText_urls split: option.splits)

lemma handleScreenSwitch_urls:
  "http_urls (trace (handleScreenSwitch i s)) = http_urls (trace s)"
  by (simp add: handleScreenSwitch_def Let_def emit_def drawInfoScreen_urls http_urls_append)

lemma beepPressed_urls: "http_urls (trace (beepPressed s)) = http_urls (trace s)"
  by (simp add: beepPressed_def emit_def http_urls_append)

lemma handlePWRBtnEvent_urls:
  "http_urls (trace (handlePWRBtnEvent p t1 t2 s)) = http_urls (trace s)"
  by (simp add: handlePWRBtnEvent_def isPWRBtnClicked_def Let_def beepPressed_urls)

lemma handleShutdownCountdown_urls:
  "http_urls (trace (handleShutdownCountdown ct it s)) = http_urls (trace s)"
  by (simp add: handleShutdownCountdown_def Let_def displayText_urls emit_def http_urls_append)

lemma handleAutoShutdown_urls:
  "http_urls (trace (handleAutoShutdown t s)) = http_urls (trace s)"
  by (simp add: handleAutoShutdown_def Let_def powerOff_def emit_def http_urls_append
      handleShutdownCountdown_urls)

lemma handleClient_urls:
  "http_urls (trace (handleClient r s)) = http_urls (trace s)"
  by (simp add: handleClient_def handleRoot_def handleSave_def Let_def restart_def emit_def
      saveConfig_def fault_def http_urls_append split: request.splits)

lemma running_urls:
  assumes "\<And>s. http_urls (trace (f s)) = http_urls (trace s)"
  shows "http_urls (trace (running f s)) = http_urls (trace s)"
  using assms by (simp add: running_def)


section \<open>What the handlers change\<close>

lemma loadConfig_keeps_image:
  "config (loadConfig s) = eeprom s \<and> eeprom (loadConfig s) = eeprom s"
  by (simp add: loadConfig_def saveConfig_def Let_def)

lemma loadConfig0_resets:
  assumes "magic (eeprom0 s) \<noteq> CONFIG_MAGIC"
  shows "deviceConfig (loadConfig0 s) = defaultDeviceConfig
       \<and> eeprom0 (loadConfig0 s) = defaultDeviceConfig
       \<and> deviceConfig (loadConfig0 (loadConfig0 s)) = defaultDeviceConfig"
proof -
  have l: "strncpy 32 DEFAULT_SSID = char_array 32 DEFAULT_SSID"
    "strncpy 64 DEFAULT_PASS = char_array 64 DEFAULT_PASS"
    "strncpy 16 DEFAULT_IP = char_array 16 DEFAULT_IP"
    by (rule strncpy_literal, simp add: DEFAULT_SSID_def DEFAULT_PASS_def DEFAULT_IP_def NUL_def)+
  have m: "magic defaultDeviceConfig = CONFIG_MAGIC" by (simp add: defaultDeviceConfig_def)
  have 1: "deviceConfig (loadConfig0 s) = defaultDeviceConfig"
    "eeprom0 (loadConfig0 s) = defaultDeviceConfig"
    using assms
    by (simp_all add: loadConfig0_def saveConfig0_def Let_def zeroedConfig_def
        defaultDeviceConfig_def l)
  have "deviceConfig (loadConfig0 (loadConfig0 s)) = defaultDeviceConfig"
    using 1 m by (simp add: loadConfig0_def Let_def)
  with 1 show ?thesis by simp
qed

lemma sendRequest_fields:
  "config (sendRequest c a s) = config s"
  "lastActiveTime (sendRequest c a s) = lastActiveTime s"
  "lastRemainingSeconds (sendRequest c a s) = lastRemainingSeconds s"
  "onCountdown (sendRequest c a s) = onCountdown s"
  "screenStateBeforeCountdown (sendRequest c a s) = screenStateBeforeCountdown s"
  "turnOnScreen (sendRequest c a s) = turnOnScreen s"
  by (simp_all add: sendRequest_def Let_def emit_def fault_def split: option.splits)

lemma beepPressed_fields:
  "config (beepPressed s) = config s"
  "lastActiveTime (beepPressed s) = lastActiveTime s"
  "lastRemainingSeconds (beepPressed s) = lastRemainingSeconds s"
  "onCountdown (beepPressed s) = onCountdown s"
  "screenStateBeforeCountdown (beepPressed s) = screenStateBeforeCountdown s"
  "turnOnScreen (beepPressed s) = turnOnScreen s"
  by (simp_all add: beepPressed_def emit_def)

lemma handleNormalBtnEvent_activity:
  assumes "wasClicked btn \<or> wasHold btn"
  shows "config (handleNormalBtnEvent True btn t ca ha s) = config s"
    "lastActiveTime (handleNormalBtnEvent True btn t ca ha s) = t"
    "lastRemainingSeconds (handleNormalBtnEvent True btn t ca ha s) = - 1"
    "onCountdown (handleNormalBtnEvent True btn t ca ha s) = onCountdown s"
    "screenStateBeforeCountdown (handleNormalBtnEvent True btn t ca ha s)
       = screenStateBeforeCountdown s"
  using assms
  by (auto simp: handleNormalBtnEvent_def Let_def sendRequest_fields beepPressed_fields)

lemma handlePWRBtnEvent_activity:
  assumes "fst (isPWRBtnClicked pin tp s)"
  shows "config (handlePWRBtnEvent pin tp t s) = config s"
    "lastActiveTime (handlePWRBtnEvent pin tp t s) = t"
    "lastRemainingSeconds (handlePWRBtnEvent pin tp t s) = - 1"
    "onCountdown (handlePWRBtnEvent pin tp t s) = onCountdown s"
    "screenStateBeforeCountdown (handlePWRBtnEvent pin tp t s) = screenStateBeforeCountdown s"
  using assms
  by (auto simp: handlePWRBtnEvent_def isPWRBtnClicked_def Let_def beepPressed_fields
      split: if_splits)

lemma handleAutoShutdown_active:
  assumes "activeWindow (config s) (now - lastActiveTime s)" "onCountdown s"
  shows "handleAutoShutdown now s
           = s\<lparr>turnOnScreen := screenStateBeforeCountdown s, onCountdown := False\<rparr>"
  using assms by (simp add: handleAutoShutdown_def activeWindow_def Let_def)

lemma handleShutdownCountdown_fields:
  "config (handleShutdownCountdown ct it s) = config s"
  "lastActiveTime (handleShutdownCountdown ct it s) = lastActiveTime s"
  "delayToTurnOffScreen (handleShutdownCountdown ct it s) = delayToTurnOffScreen s"
  by (simp_all add: handleShutdownCountdown_def Let_def displayText_def emit_def)

lemma handleShutdownCountdown_forces:
  "shutdownCountdownScreen (config s) \<Longrightarrow>
     turnOnScreen (handleShutdownCountdown ct it s) \<and> onCountdown (handleShutdownCountdown ct it s)"
  by (simp add: handleShutdownCountdown_def Let_def displayText_def emit_def)

lemma handleAutoShutdown_countdown:
  "idleWindow (config s) (now - lastActiveTime s) \<Longrightarrow>
     handleAutoShutdown now s = handleShutdownCountdown now (now - lastActiveTime s) s"
  by (simp add: handleAutoShutdown_def idleWindow_def Let_def)


lemma handleShutdownCountdown_keeps_key:
  "pwrBtnpressStartTime (handleShutdownCountdown ct it s) = pwrBtnpressStartTime s"
  "status (handleShutdownCountdown ct it s) = status s"
  by (simp_all add: handleShutdownCountdown_def Let_def displayText_def emit_def)

lemma displayText_keeps:
  "config (displayText t s) = config s"
  "lastActiveTime (displayText t s) = lastActiveTime s"
  "onCountdown (displayText t s) = onCountdown s"
  "screenStateBeforeCountdown (displayText t s) = screenStateBeforeCountdown s"
  "pwrBtnpressStartTime (displayText t s) = pwrBtnpressStartTime s"
  by (simp_all add: displayText_def Let_def emit_def)

lemma drawInfoScreen_keeps:
  "config (drawInfoScreen c w l a b s) = config s"
  "lastActiveTime (drawInfoScreen c w l a b s) = lastActiveTime s"
  "onCountdown (drawInfoScreen c w l a b s) = onCountdown s"
  "screenStateBeforeCountdown (drawInfoScreen c w l a b s) = screenStateBeforeCountdown s"
  "pwrBtnpressStartTime (drawInfoScreen c w l a b s) = pwrBtnpressStartTime s"
  by (simp_all add: drawInfoScreen_def Let_def fault_def displayText_keeps split: option.splits)

lemma handleScreenSwitch_keeps:
  "config (handleScreenSwitch i s) = config s"
  "lastActiveTime (handleScreenSwitch i s) = lastActiveTime s"
  "onCountdown (handleScreenSwitch i s) = onCountdown s"
  "screenStateBeforeCountdown (handleScreenSwitch i s) = screenStateBeforeCountdown s"
  "pwrBtnpressStartTime (handleScreenSwitch i s) = pwrBtnpressStartTime s"
  by (simp_all add: handleScreenSwitch_def Let_def emit_def drawInfoScreen_keeps)

lemma isPWRBtnClicked_keeps:
  "config (snd (isPWRBtnClicked p t s)) = config s"
  "lastActiveTime (snd (isPWRBtnClicked p t s)) = lastActiveTime s"
  "onCountdown (snd (isPWRBtnClicked p t s)) = onCountdown s"
  "screenStateBeforeCountdown (snd (isPWRBtnClicked p t s)) = screenStateBeforeCountdown s"
  by (simp_all add: isPWRBtnClicked_def Let_def)

lemma isPWRBtnClicked_depends:
  "pwrBtnpressStartTime s' = pwrBtnpressStartTime s \<Longrightarrow>
     fst (isPWRBtnClicked p t s') = fst (isPWRBtnClicked p t s)"
  by (simp add: isPWRBtnClicked_def Let_def)

lemma handlePWRBtnEvent_no_click:
  "\<not> fst (isPWRBtnClicked p t s) \<Longrightarrow> handlePWRBtnEvent p t t2 s = snd (isPWRBtnClicked p t s)"
  by (cases "isPWRBtnClicked p t s") (simp add: handlePWRBtnEvent_def)

lemma handleShutdownCountdown_saved:
  "onCountdown s \<Longrightarrow>
     screenStateBeforeCountdown (handleShutdownCountdown ct it s) = screenStateBeforeCountdown s
     \<and> onCountdown (handleShutdownCountdown ct it s)"
  by (simp add: handleShutdownCountdown_def Let_def displayText_def emit_def)

lemma handleShutdownCountdown_entry:
  "\<not> onCountdown s \<Longrightarrow> shutdownCountdownScreen (config s) \<Longrightarrow>
     screenStateBeforeCountdown (handleShutdownCountdown ct it s) = turnOnScreen s
     \<and> onCountdown (handleShutdownCountdown ct it s)"
  by (simp add: handleShutdownCountdown_def Let_def displayText_def emit_def)

lemma handleClient_keeps:
  assumes "\<not> savesForm r"
  shows "config (handleClient r s) = config s"
    "lastActiveTime (handleClient r s) = lastActiveTime s"
    "onCountdown (handleClient r s) = onCountdown s"
    "screenStateBeforeCountdown (handleClient r s) = screenStateBeforeCountdown s"
  using assms
  by (simp_all add: handleClient_def handleRoot_def savesForm_def emit_def fault_def
      split: request.splits)

lemma running_keeps:
  assumes "\<And>s. P s \<Longrightarrow> P (f s)" and "P s"
  shows "P (running f s)"
  using assms by (simp add: running_def)

lemma countdown_pass_keeps:
  assumes c: "onCountdown s"
    and q: "\<not> registersActivity i s" "\<not> savesForm (webRequest i)"
    and w: "idleWindow (config s) (millisShutdown i - lastActiveTime s)"
  shows "countdownFrom s (loop i s)"
proof -
  let ?P = "\<lambda>x. countdownFrom s x \<and> pwrBtnpressStartTime x = pwrBtnpressStartTime s"
  let ?Q = "\<lambda>x. countdownFrom s x"
  have n: "\<And>b t ca ha x. b = btnA i \<or> b = btnB i \<Longrightarrow>
             handleNormalBtnEvent (wifiConnected i) b t ca ha x = x"
    using q(1) by (auto simp: registersActivity_def handleNormalBtnEvent_def)
  have nc: "\<not> fst (isPWRBtnClicked (pwrPinLow i) (millisPwrPin i) s)"
    using q(1) by (simp add: registersActivity_def)
  let ?s1 = "running (handleScreenSwitch i) s"
  have p1: "?P ?s1"
    using c by (intro running_keeps [where P = ?P])
      (simp_all add: countdownFrom_def handleScreenSwitch_keeps)
  let ?s2 = "running (\<lambda>s. handleNormalBtnEvent (wifiConnected i) (btnA i) (millisBtnA i)
                               (aBtnClickAction (config s)) (aBtnHoldAction (config s)) s) ?s1"
  have p2: "?P ?s2" using p1 by (simp add: running_def n)
  let ?s3 = "running (\<lambda>s. handleNormalBtnEvent (wifiConnected i) (btnB i) (millisBtnB i)
                               (bBtnClickAction (config s)) (bBtnHoldAction (config s)) s) ?s2"
  have p3: "?P ?s3" using p2 by (simp add: running_def n)
  let ?s4 = "running (handlePWRBtnEvent (pwrPinLow i) (millisPwrPin i) (millisPwrEvent i)) ?s3"
  have nc3: "\<not> fst (isPWRBtnClicked (pwrPinLow i) (millisPwrPin i) ?s3)"
    using nc p3 isPWRBtnClicked_depends [of ?s3 s] by simp
  have p4: "?Q ?s4"
    using p3 nc3
    by (simp add: running_def handlePWRBtnEvent_no_click countdownFrom_def isPWRBtnClicked_keeps)
  let ?s5 = "running (handleAutoShutdown (millisShutdown i)) ?s4"
  have w4: "idleWindow (config ?s4) (millisShutdown i - lastActiveTime ?s4)"
    using w p4 by (simp add: countdownFrom_def)
  have p5: "?Q ?s5"
    using p4 w4 handleShutdownCountdown_saved [of ?s4]
    by (simp add: running_def handleAutoShutdown_countdown countdownFrom_def
        handleShutdownCountdown_fields)
  have p6: "?Q (running (handleClient (webRequest i)) ?s5)"
    using p5 q(2) by (simp add: running_def countdownFrom_def handleClient_keeps)
  then show ?thesis by (simp add: loop_def Let_def)
qed

lemma countdown_passes_keep:
  "onCountdown s \<Longrightarrow> countdownPasses ps s \<Longrightarrow> countdownFrom s (passes ps s)"
proof (induction ps arbitrary: s)
  case Nil
  then show ?case by (simp add: countdownFrom_def)
next
  case (Cons i rest)
  from Cons.prems have k: "countdownFrom s (loop i s)"
    by (intro countdown_pass_keeps) simp_all
  then have "onCountdown (loop i s)" by (simp add: countdownFrom_def)
  with Cons.prems Cons.IH [of "loop i s"] have "countdownFrom (loop i s) (passes rest (loop i s))"
    by simp
  with k show ?case by (simp add: countdownFrom_def)
qed


section \<open>The examples, evaluated\<close>

lemma thresholds_default:
  "shutdownThreshold defaultConfig = 600000" "countdownThreshold defaultConfig = 590000"
  by (simp_all add: shutdownThreshold_def countdownThreshold_def defaultConfig_def)

lemma exCountdown_eq:
  "exCountdown = (initial defaultConfig)
     \<lparr> turnOnScreen := True, onCountdown := True, screenStateBeforeCountdown := False,
       textColor := RED,
       lastDisplayedText := TXT_COUNTDOWN @ ''5'' @ TXT_SECONDS,
       lastRemainingSeconds := 5,
       trace := [FillScreenBlack, SetCursor 0 0, SetTextSize 1, SetTextColor RED,
                 Println (TXT_COUNTDOWN @ ''5'' @ TXT_SECONDS)] \<rparr>"
  by (simp add: exCountdown_def handleAutoShutdown_def handleShutdownCountdown_def Let_def
      thresholds_default initial_def displayText_def emit_def String_int32_5
      defaultConfig_def[THEN arg_cong[where f=autoShutdownTime]]
      defaultConfig_def[THEN arg_cong[where f=shutdownCountdownScreen]]
      defaultConfig_def[THEN arg_cong[where f=shutdownCountdownBeep]])

lemma exCountdown_fields:
  "config exCountdown = defaultConfig" "status exCountdown = Running"
  "onCountdown exCountdown" "turnOnScreen exCountdown"
  "\<not> screenStateBeforeCountdown exCountdown" "lastRemainingSeconds exCountdown = 5"
  "lastActiveTime exCountdown = 0" "\<not> delayToTurnOffScreen exCountdown"
  "pwrBtnpressStartTime exCountdown = 0"
  "http_urls (trace exCountdown) = []"
  by (simp_all add: exCountdown_eq initial_def)

lemma loop_exCountdown:
  "loop exInputs exCountdown = emit DisplayWakeup exCountdown"
proof -
  have a: "handleScreenSwitch exInputs exCountdown = emit DisplayWakeup exCountdown"
    by (simp add: handleScreenSwitch_def Let_def exCountdown_fields emit_def)
  have n: "\<And>b t c h s. handleNormalBtnEvent (wifiConnected exInputs) b t c h s = s"
    by (simp add: handleNormalBtnEvent_def exInputs_def)
  have p: "handlePWRBtnEvent (pwrPinLow exInputs) (millisPwrPin exInputs) (millisPwrEvent exInputs)
             (emit DisplayWakeup exCountdown) = emit DisplayWakeup exCountdown"
    by (simp add: handlePWRBtnEvent_def isPWRBtnClicked_def exInputs_def emit_def
        exCountdown_fields)
  have h: "handleAutoShutdown (millisShutdown exInputs) (emit DisplayWakeup exCountdown)
             = emit DisplayWakeup exCountdown"
    by (simp add: handleAutoShutdown_def handleShutdownCountdown_def Let_def exInputs_def
        emit_def exCountdown_fields thresholds_default
        defaultConfig_def[THEN arg_cong[where f=autoShutdownTime]]
        defaultConfig_def[THEN arg_cong[where f=shutdownCountdownScreen]])
  have c: "handleClient (webRequest exInputs) (emit DisplayWakeup exCountdown)
             = emit DisplayWakeup exCountdown"
    by (simp add: handleClient_def exInputs_def)
  have r: "status (emit DisplayWakeup exCountdown) = Running"
    by (simp add: emit_def exCountdown_fields)
  show ?thesis
    unfolding loop_def Let_def n
    by (simp add: running_def a p h c r exCountdown_fields)
qed

lemma exMisconfigured_fields:
  "autoShutdownTime (config exMisconfigured) = 10"
  "countdownTime (config exMisconfigured) = 20"
  "lastActiveTime exMisconfigured = 0"
  "\<not> onCountdown exMisconfigured"
  by (simp_all add: exMisconfigured_def initial_def)

lemma exNoPrompt_fields:
  "config exNoPrompt = defaultConfig\<lparr>shutdownCountdownScreen := False\<rparr>"
  "status exNoPrompt = Running" "\<not> turnOnScreen exNoPrompt" "\<not> onCountdown exNoPrompt"
  "lastActiveTime exNoPrompt = 0" "\<not> delayToTurnOffScreen exNoPrompt"
  "pwrBtnpressStartTime exNoPrompt = 0" "trace exNoPrompt = []"
  by (simp_all add: exNoPrompt_def initial_def)

lemma thresholds_noPrompt:
  "shutdownThreshold (defaultConfig\<lparr>shutdownCountdownScreen := False\<rparr>) = 600000"
  "countdownThreshold (defaultConfig\<lparr>shutdownCountdownScreen := False\<rparr>) = 590000"
  by (simp_all add: shutdownThreshold_def countdownThreshold_def defaultConfig_def)

lemma loop_exNoPrompt: "loop exIdleInputs exNoPrompt = emit DisplaySleep exNoPrompt"
proof -
  let ?s = "emit DisplaySleep exNoPrompt"
  have f: "config ?s = defaultConfig\<lparr>shutdownCountdownScreen := False\<rparr>"
    "status ?s = Running" "\<not> onCountdown ?s" "lastActiveTime ?s = 0"
    "pwrBtnpressStartTime ?s = 0"
    by (simp_all add: emit_def exNoPrompt_fields)
  have a: "handleScreenSwitch exIdleInputs exNoPrompt = ?s"
    by (simp add: handleScreenSwitch_def Let_def exNoPrompt_fields)
  have n: "\<And>t c h. handleNormalBtnEvent (wifiConnected exIdleInputs) noPress t c h ?s = ?s"
    by (simp add: handleNormalBtnEvent_def noPress_def)
  have b: "btnA exIdleInputs = noPress" "btnB exIdleInputs = noPress"
    by (simp_all add: exIdleInputs_def)
  have p: "handlePWRBtnEvent (pwrPinLow exIdleInputs) (millisPwrPin exIdleInputs)
             (millisPwrEvent exIdleInputs) ?s = ?s"
    by (simp add: handlePWRBtnEvent_def isPWRBtnClicked_def exIdleInputs_def f)
  have h: "handleAutoShutdown (millisShutdown exIdleInputs) ?s = ?s"
    by (simp add: handleAutoShutdown_def handleShutdownCountdown_def Let_def exIdleInputs_def
        f thresholds_noPrompt)
  have c: "handleClient (webRequest exIdleInputs) ?s = ?s"
    by (simp add: handleClient_def exIdleInputs_def)
  show ?thesis
    unfolding loop_def Let_def
    by (simp add: running_def a b n p h c f exNoPrompt_fields)
qed

lemma exBooted0_eq:
  "exBooted0 = (initial0 erasedImage0)
                 \<lparr>deviceConfig := defaultDeviceConfig, eeprom0 := defaultDeviceConfig\<rparr>"
proof -
  have l: "strncpy 32 DEFAULT_SSID = char_array 32 DEFAULT_SSID"
    "strncpy 64 DEFAULT_PASS = char_array 64 DEFAULT_PASS"
    "strncpy 16 DEFAULT_IP = char_array 16 DEFAULT_IP"
    by (rule strncpy_literal, simp add: DEFAULT_SSID_def DEFAULT_PASS_def DEFAULT_IP_def NUL_def)+
  have m: "magic erasedImage0 \<noteq> CONFIG_MAGIC"
    by (simp add: erasedImage0_def CONFIG_MAGIC_def)
  show ?thesis
    using m
    by (simp add: exBooted0_def loadConfig0_def saveConfig0_def Let_def initial0_def
        zeroedConfig_def defaultDeviceConfig_def l)
qed

lemma loop0_exBooted0:
  "trace0 (loop0 exInputs0 exBooted0)
     = [SpeakerStop, SpeakerTone BUTTON_FREQ BUTTON_DURATION,
        HttpGet ''http://192.168.2.99:8080/koreader/event/GotoViewRel/1'',
        DisplayClear, DisplaySleep]"
proof -
  have f: "deviceConfig exBooted0 = defaultDeviceConfig" "status0 exBooted0 = Running"
    "lastActivityTime exBooted0 = 0" "\<not> screenEnabled exBooted0" "trace0 exBooted0 = []"
    "lastPress exBooted0 = 0"
    by (simp_all add: exBooted0_eq initial0_def)
  have i: "pressedA exInputs0" "\<not> pressedB exInputs0" "\<not> pinCLow exInputs0"
    "millisLoop exInputs0 = 1000" "webRequest0 exInputs0 = NoRequest0"
    by (simp_all add: exInputs0_def)
  have p: "targetPort defaultDeviceConfig = 8080"
    by (simp add: defaultDeviceConfig_def DEFAULT_PORT_def)
  have t: "\<not> SHUTDOWN_TIMEOUT \<le> (1000 :: ulong)" "\<not> COUNTDOWN_START \<le> (1000 :: ulong)"
    by (simp_all add: SHUTDOWN_TIMEOUT_def COUNTDOWN_START_def)
  show ?thesis
    unfolding loop0_def Let_def
    by (simp add: running0_def handleButtons0_def sendTurnPageRequest_def isButtonCPressed_def
        handleClient0_def Let_def emit0_def f i p t default_host0 String_uint16_8080
        String_int32_1 ENABLE_BUTTON_BEEP_def)
qed


lemma exCountdown_entered:
  "handleAutoShutdown 595000 ((initial defaultConfig)\<lparr>turnOnScreen := False\<rparr>) = exCountdown"
  by (simp add: exCountdown_def)

lemma exKeyDown_quiet:
  "countdownPasses [exKeyDown] exCountdown"
proof -
  have "\<not> registersActivity exKeyDown exCountdown"
    by (simp add: registersActivity_def exKeyDown_def noPress_def isPWRBtnClicked_def)
  moreover have "\<not> savesForm (webRequest exKeyDown)"
    by (simp add: savesForm_def exKeyDown_def)
  moreover have "idleWindow (config exCountdown)
                   (millisShutdown exKeyDown - lastActiveTime exCountdown)"
    by (simp add: idleWindow_def exCountdown_fields thresholds_default exKeyDown_def)
  ultimately show ?thesis by simp
qed

lemma loop_exKeyDown_key:
  "pwrBtnpressStartTime (loop exKeyDown exCountdown) = 596000"
proof -
  let ?a = "emit DisplayWakeup exCountdown"
  let ?p = "?a\<lparr>pwrBtnpressStartTime := 596000\<rparr>"
  have i: "wifiConnected exKeyDown" "btnA exKeyDown = noPress" "btnB exKeyDown = noPress"
    "pwrPinLow exKeyDown" "millisPwrPin exKeyDown = 596000" "millisShutdown exKeyDown = 596000"
    "webRequest exKeyDown = NoRequest"
    by (simp_all add: exKeyDown_def)
  have a: "handleScreenSwitch exKeyDown exCountdown = ?a"
    by (simp add: handleScreenSwitch_def Let_def exCountdown_fields emit_def)
  have n: "\<And>t c h x. handleNormalBtnEvent True noPress t c h x = x"
    by (simp add: handleNormalBtnEvent_def noPress_def)
  have p: "handlePWRBtnEvent True 596000 (millisPwrEvent exKeyDown) ?a = ?p"
    by (simp add: handlePWRBtnEvent_def isPWRBtnClicked_def emit_def exCountdown_fields)
  have f: "status ?a = Running" "status ?p = Running" "config ?p = defaultConfig"
    "lastActiveTime ?p = 0"
    by (simp_all add: emit_def exCountdown_fields)
  have w: "idleWindow (config ?p) (596000 - lastActiveTime ?p)"
    by (simp add: f idleWindow_def thresholds_default)
  have h: "pwrBtnpressStartTime (handleAutoShutdown 596000 ?p) = 596000"
    "status (handleAutoShutdown 596000 ?p) = Running"
    unfolding handleAutoShutdown_countdown [OF w]
    by (simp_all add: handleShutdownCountdown_keeps_key f)
  show ?thesis
    unfolding loop_def Let_def
    by (simp add: running_def i a n p f h handleClient_def exCountdown_fields)
qed


section \<open>Properties\<close>

subsection \<open>Action sender\<close>

text \<open>
  C1. With the host array holding the C string \<open>H\<close> and the port \<open>P\<close>, and the WiFi
  connected, \<open>sendRequest\<close> issues exactly one GET, to
  \<open>http://H:P/koreader/event/GotoViewRel/-1\<close> for action 0,
  \<open>.../GotoViewRel/1\<close> for action 1, \<open>.../FullRefresh\<close> for action 2 and
  \<open>.../ToggleFrontlight\<close> for action 3, the port in decimal. The second sketch's
  \<open>sendTurnPageRequest\<close> builds the two \<open>GotoViewRel\<close> URLs the same way. At host
  \<open>192.168.1.100\<close>, port 8080 and action 1 the URL is
  \<open>http://192.168.1.100:8080/koreader/event/GotoViewRel/1\<close>.
\<close>

theorem sendRequest_builds_documented_url:
  assumes "String_chars (koReaderIP (config s)) = Some H"
    and "koReaderPort (config s) = P"
    and "String_chars (targetIP (deviceConfig s0)) = Some H0"
    and "targetPort (deviceConfig s0) = P0"
  shows "sendRequest True 0 s
           = emit (HttpGet (''http://'' @ H @ '':'' @ String_int32 P
                              @ ''/koreader/event/GotoViewRel/-1'')) s
       \<and> sendRequest True 1 s
           = emit (HttpGet (''http://'' @ H @ '':'' @ String_int32 P
                              @ ''/koreader/event/GotoViewRel/1'')) s
       \<and> sendRequest True 2 s
           = emit (HttpGet (''http://'' @ H @ '':'' @ String_int32 P
                              @ ''/koreader/event/FullRefresh'')) s
       \<and> sendRequest True 3 s
           = emit (HttpGet (''http://'' @ H @ '':'' @ String_int32 P
                              @ ''/koreader/event/ToggleFrontlight'')) s
       \<and> sendTurnPageRequest (- 1) s0
           = emit0 (HttpGet (''http://'' @ H0 @ '':'' @ String_uint16 P0
                               @ ''/koreader/event/GotoViewRel/-1'')) s0
       \<and> sendTurnPageRequest 1 s0
           = emit0 (HttpGet (''http://'' @ H0 @ '':'' @ String_uint16 P0
                               @ ''/koreader/event/GotoViewRel/1'')) s0"
  using assms
  by (simp add: sendRequest_def sendTurnPageRequest_def String_int32_1 String_int32_m1)

theorem sendRequest_builds_documented_url_witness:
  "String_chars (koReaderIP (config (initial defaultConfig))) = Some ''192.168.1.100''
   \<and> koReaderPort (config (initial defaultConfig)) = 8080
   \<and> String_chars (targetIP (deviceConfig ((initial0 defaultDeviceConfig)\<lparr>deviceConfig := defaultDeviceConfig\<rparr>))) = Some ''192.168.2.99''
   \<and> targetPort (deviceConfig ((initial0 defaultDeviceConfig)\<lparr>deviceConfig := defaultDeviceConfig\<rparr>)) = 8080
   \<and> sendRequest True 1 (initial defaultConfig)
       = emit (HttpGet ''http://192.168.1.100:8080/koreader/event/GotoViewRel/1'')
           (initial defaultConfig)
   \<and> sendTurnPageRequest 1 ((initial0 defaultDeviceConfig)\<lparr>deviceConfig := defaultDeviceConfig\<rparr>)
       = emit0 (HttpGet ''http://192.168.2.99:8080/koreader/event/GotoViewRel/1'')
           ((initial0 defaultDeviceConfig)\<lparr>deviceConfig := defaultDeviceConfig\<rparr>)"
proof -
  let ?s = "initial defaultConfig"
  let ?u = "(initial0 defaultDeviceConfig)\<lparr>deviceConfig := defaultDeviceConfig\<rparr>"
  have h1: "String_chars (koReaderIP (config ?s)) = Some ''192.168.1.100''"
    by (simp add: initial_def default_host)
  have h2: "koReaderPort (config ?s) = 8080"
    by (simp add: initial_def defaultConfig_def)
  have h3: "String_chars (targetIP (deviceConfig ?u)) = Some ''192.168.2.99''"
    by (simp add: default_host0)
  have h4: "targetPort (deviceConfig ?u) = 8080"
    by (simp add: defaultDeviceConfig_def DEFAULT_PORT_def)
  show ?thesis
    using sendRequest_builds_documented_url [OF h1 h2 h3 h4] h1 h2 h3 h4
    by (simp add: String_int32_8080 String_uint16_8080)
qed


subsection \<open>Countdown display\<close>

text \<open>
  C2. Let \<open>d\<close> be the whole seconds of idle time (the elapsed milliseconds divided by
  1000) with \<open>autoShutdownTime - countdownTime \<le> d < autoShutdownTime\<close>. The countdown
  handler computes \<open>autoShutdownTime - d\<close>, stores it in \<open>lastRemainingSeconds\<close> and
  prints it in the countdown text; when \<open>lastRemainingSeconds\<close> already holds that value
  the handler draws nothing. The second sketch, with its constants 600 and 10, draws
  \<open>600 - d\<close> for \<open>590 \<le> d < 600\<close> under the same condition (it wakes the display on
  every tick, which draws nothing).
\<close>

theorem countdown_displays_remaining_seconds:
  assumes "sint (autoShutdownTime (config s)) - sint (countdownTime (config s))
             \<le> int (unat inactiveTime div 1000)"
    and "int (unat inactiveTime div 1000) < sint (autoShutdownTime (config s))"
    and "590 \<le> unat inactiveTime0 div 1000"
    and "unat inactiveTime0 div 1000 < 600"
  shows "(\<not> shutdownCountdownScreen (config s)
            \<longrightarrow> handleShutdownCountdown currentTime inactiveTime s = s)
       \<and> (shutdownCountdownScreen (config s)
            \<longrightarrow> sint (lastRemainingSeconds (handleShutdownCountdown currentTime inactiveTime s))
                  = sint (autoShutdownTime (config s)) - int (unat inactiveTime div 1000))
       \<and> (sint (lastRemainingSeconds s)
              = sint (autoShutdownTime (config s)) - int (unat inactiveTime div 1000)
            \<longrightarrow> trace (handleShutdownCountdown currentTime inactiveTime s) = trace s)
       \<and> (shutdownCountdownScreen (config s)
           \<and> sint (lastRemainingSeconds s)
              \<noteq> sint (autoShutdownTime (config s)) - int (unat inactiveTime div 1000)
            \<longrightarrow> trace (handleShutdownCountdown currentTime inactiveTime s)
                  = trace s
                    @ (if shutdownCountdownBeep (config s)
                       then [SpeakerTone BEEP_SHUTDOWN_FREQ BEEP_SHUTDOWN_DURATION] else [])
                    @ (if TXT_COUNTDOWN
                            @ String_int (sint (autoShutdownTime (config s))
                                            - int (unat inactiveTime div 1000))
                            @ TXT_SECONDS \<noteq> lastDisplayedText s
                       then [FillScreenBlack, SetCursor 0 0, SetTextSize 1, SetTextColor RED,
                             Println (TXT_COUNTDOWN
                                        @ String_int (sint (autoShutdownTime (config s))
                                                        - int (unat inactiveTime div 1000))
                                        @ TXT_SECONDS)]
                       else []))
       \<and> sint (lastRemainingSeconds0 (handleShutdownCountdown0 w h currentTime0 inactiveTime0 s0))
           = 600 - int (unat inactiveTime0 div 1000)
       \<and> trace0 (handleShutdownCountdown0 w h currentTime0 inactiveTime0 s0)
           = trace0 s0
             @ (if sint (lastRemainingSeconds0 s0) = 600 - int (unat inactiveTime0 div 1000)
                then [DisplayWakeup]
                else [DisplayWakeup, DisplayClear, SetTextDatum middle_center,
                      DrawString (String_int (600 - int (unat inactiveTime0 div 1000))
                                    @ TXT_SHUTDOWN_IN) (w div 2) (h div 2),
                      SetTextDatum top_left])"
proof -
  let ?r = "autoShutdownTime (config s) - inactiveTime div 1000"
  let ?v = "sint (autoShutdownTime (config s)) - int (unat inactiveTime div 1000)"
  have v: "sint ?r = ?v" using assms(2) by (rule remaining_seconds_value)
  have e: "(?r = lastRemainingSeconds s) \<longleftrightarrow> (sint (lastRemainingSeconds s) = ?v)"
    using assms(2) by (rule remaining_eq_iff)
  have str: "String_int32 ?r = String_int ?v" by (simp add: String_int32_def v)
  let ?rz = "10 - (inactiveTime0 - COUNTDOWN_START) div 1000"
  let ?vz = "600 - int (unat inactiveTime0 div 1000)"
  have v0: "sint ?rz = ?vz" using assms(3,4) by (rule remaining0_value)
  have e0: "(?rz = lastRemainingSeconds0 s0) \<longleftrightarrow> (sint (lastRemainingSeconds0 s0) = ?vz)"
    using assms(3,4) by (rule remaining0_eq_iff)
  have str0: "String_int32 ?rz = String_int ?vz" by (simp add: String_int32_def v0)
  have p1: "\<not> shutdownCountdownScreen (config s)
            \<longrightarrow> handleShutdownCountdown currentTime inactiveTime s = s"
    by (simp add: handleShutdownCountdown_def)
  have p2: "shutdownCountdownScreen (config s)
            \<longrightarrow> sint (lastRemainingSeconds (handleShutdownCountdown currentTime inactiveTime s)) = ?v"
    using v e by (auto simp: handleShutdownCountdown_def Let_def)
  have p3: "sint (lastRemainingSeconds s) = ?v
            \<longrightarrow> trace (handleShutdownCountdown currentTime inactiveTime s) = trace s"
    using e by (simp add: handleShutdownCountdown_def Let_def)
  have p4: "shutdownCountdownScreen (config s) \<and> sint (lastRemainingSeconds s) \<noteq> ?v
            \<longrightarrow> trace (handleShutdownCountdown currentTime inactiveTime s)
                  = trace s
                    @ (if shutdownCountdownBeep (config s)
                       then [SpeakerTone BEEP_SHUTDOWN_FREQ BEEP_SHUTDOWN_DURATION] else [])
                    @ (if TXT_COUNTDOWN @ String_int ?v @ TXT_SECONDS \<noteq> lastDisplayedText s
                       then [FillScreenBlack, SetCursor 0 0, SetTextSize 1, SetTextColor RED,
                             Println (TXT_COUNTDOWN @ String_int ?v @ TXT_SECONDS)]
                       else [])"
    using e by (simp add: handleShutdownCountdown_def Let_def displayText_def emit_def str)
  have p5: "sint (lastRemainingSeconds0 (handleShutdownCountdown0 w h currentTime0 inactiveTime0 s0))
           = ?vz"
    using v0 e0
    by (auto simp: handleShutdownCountdown0_def Let_def emit0_def ENABLE_SCREEN_PROMPT_def
        ENABLE_COUNTDOWN_BEEP_def)
  have p6: "trace0 (handleShutdownCountdown0 w h currentTime0 inactiveTime0 s0)
           = trace0 s0
             @ (if sint (lastRemainingSeconds0 s0) = ?vz
                then [DisplayWakeup]
                else [DisplayWakeup, DisplayClear, SetTextDatum middle_center,
                      DrawString (String_int ?vz @ TXT_SHUTDOWN_IN) (w div 2) (h div 2),
                      SetTextDatum top_left])"
    using e0
    by (simp add: handleShutdownCountdown0_def Let_def emit0_def ENABLE_SCREEN_PROMPT_def
        ENABLE_COUNTDOWN_BEEP_def str0)
  from p1 p2 p3 p4 p5 p6 show ?thesis by blast
qed

theorem countdown_displays_remaining_seconds_witness:
  "sint (autoShutdownTime (config (initial defaultConfig)))
       - sint (countdownTime (config (initial defaultConfig))) \<le> int (unat (595400 :: ulong) div 1000)
   \<and> int (unat (595400 :: ulong) div 1000) < sint (autoShutdownTime (config (initial defaultConfig)))
   \<and> 590 \<le> unat (595400 :: ulong) div 1000
   \<and> unat (595400 :: ulong) div 1000 < 600
   \<and> shutdownCountdownScreen (config (initial defaultConfig))
   \<and> sint (lastRemainingSeconds (initial defaultConfig)) \<noteq> 5
   \<and> sint (lastRemainingSeconds (handleShutdownCountdown 595400 595400 (initial defaultConfig))) = 5
   \<and> trace (handleShutdownCountdown 595400 595400 (initial defaultConfig))
       = [FillScreenBlack, SetCursor 0 0, SetTextSize 1, SetTextColor RED,
          Println (TXT_COUNTDOWN @ ''5'' @ TXT_SECONDS)]
   \<and> trace (handleShutdownCountdown 595900 595900
               (handleShutdownCountdown 595400 595400 (initial defaultConfig)))
       = trace (handleShutdownCountdown 595400 595400 (initial defaultConfig))
   \<and> trace0 (handleShutdownCountdown0 240 135 595400 595400 (initial0 defaultDeviceConfig))
       = [DisplayWakeup, DisplayClear, SetTextDatum middle_center,
          DrawString (''5'' @ TXT_SHUTDOWN_IN) 120 67, SetTextDatum top_left]"
proof -
  let ?s = "initial defaultConfig" and ?u = "initial0 defaultDeviceConfig"
  let ?t = "handleShutdownCountdown 595400 595400 (initial defaultConfig)"
  have c: "autoShutdownTime (config ?s) = 600" "countdownTime (config ?s) = 10"
    "shutdownCountdownScreen (config ?s)" "\<not> shutdownCountdownBeep (config ?s)"
    "lastRemainingSeconds ?s = - 1" "lastDisplayedText ?s = []" "trace ?s = []"
    by (simp_all add: initial_def defaultConfig_def)
  have c0: "lastRemainingSeconds0 ?u = - 1" "trace0 ?u = []"
    by (simp_all add: initial0_def)
  have h1: "sint (autoShutdownTime (config ?s)) - sint (countdownTime (config ?s))
              \<le> int (unat (595400 :: ulong) div 1000)"
    by (simp add: c)
  have h2: "int (unat (595400 :: ulong) div 1000) < sint (autoShutdownTime (config ?s))"
    by (simp add: c)
  have h3: "590 \<le> unat (595400 :: ulong) div 1000" by simp
  have h4: "unat (595400 :: ulong) div 1000 < 600" by simp
  have k1: "sint (autoShutdownTime (config ?t)) - sint (countdownTime (config ?t))
              \<le> int (unat (595900 :: ulong) div 1000)"
    by (simp add: handleShutdownCountdown_fields c)
  have k2: "int (unat (595900 :: ulong) div 1000) < sint (autoShutdownTime (config ?t))"
    by (simp add: handleShutdownCountdown_fields c)
  have d: "TXT_COUNTDOWN @ ''5'' @ TXT_SECONDS \<noteq> []" by simp
  note first = countdown_displays_remaining_seconds
      [OF h1 h2 h3 h4, of 595400 240 135 595400 ?u]
  note second = countdown_displays_remaining_seconds
      [OF k1 k2 h3 h4, of 595900 240 135 595400 ?u]
  have l5: "sint (lastRemainingSeconds ?t) = 5"
    using first by (simp add: c)
  have tr: "trace ?t = [FillScreenBlack, SetCursor 0 0, SetTextSize 1, SetTextColor RED,
          Println (TXT_COUNTDOWN @ ''5'' @ TXT_SECONDS)]"
    using first by (simp add: c String_int_5)
  have same: "trace (handleShutdownCountdown 595900 595900 ?t) = trace ?t"
    using second l5 by (simp add: handleShutdownCountdown_fields c)
  have tr0: "trace0 (handleShutdownCountdown0 240 135 595400 595400 ?u)
       = [DisplayWakeup, DisplayClear, SetTextDatum middle_center,
          DrawString (''5'' @ TXT_SHUTDOWN_IN) 120 67, SetTextDatum top_left]"
    using first by (simp add: c0 String_int_5)
  show ?thesis
    using h1 h2 h3 h4 l5 tr same tr0 by (simp add: c)
qed


subsection \<open>Buttons while the network is down\<close>

text \<open>
  C3, as stated, fails on the second sketch: its \<open>loop\<close> does not look at the WiFi
  status, and a press of button A with the WiFi down sends the request for the next
  page.
\<close>

theorem loop0_sends_while_disconnected:
  "\<not> connected0 exInputs0
   \<and> pressedA exInputs0
   \<and> http_urls (trace0 (loop0 exInputs0 exBooted0))
       = [''http://192.168.2.99:8080/koreader/event/GotoViewRel/1'']"
proof -
  have "\<not> connected0 exInputs0" "pressedA exInputs0" by (simp_all add: exInputs0_def)
  then show ?thesis by (simp add: loop0_exBooted0)
qed


text \<open>
  C3, amended. In the configurable sketch, a pass of \<open>loop\<close> in which the WiFi status is
  not connected issues no outbound HTTP request, whatever the buttons, the power key and
  the web client do in that pass.
\<close>

theorem loop_disconnected_sends_nothing:
  assumes "\<not> wifiConnected i"
  shows "http_urls (trace (loop i s)) = http_urls (trace s)"
proof -
  have n: "\<And>b t c h s. handleNormalBtnEvent (wifiConnected i) b t c h s = s"
    using assms by (simp add: handleNormalBtnEvent_def)
  show ?thesis
    unfolding loop_def Let_def n
    by (simp add: running_urls handleScreenSwitch_urls handlePWRBtnEvent_urls
        handleAutoShutdown_urls handleClient_urls)
qed

theorem loop_disconnected_sends_nothing_witness:
  "\<not> wifiConnected exInputs
   \<and> wasClicked (btnA exInputs)
   \<and> http_urls (trace (loop exInputs exCountdown)) = []"
proof -
  have h: "\<not> wifiConnected exInputs" by (simp add: exInputs_def)
  have c: "wasClicked (btnA exInputs)" by (simp add: exInputs_def pressA_def)
  show ?thesis
    using loop_disconnected_sends_nothing [OF h, of exCountdown] h c
    by (simp add: exCountdown_fields)
qed


subsection \<open>First boot\<close>

text \<open>
  C4 fails on the configurable sketch. On a storage that was never written, \<open>loadConfig\<close>
  copies the erased image over the built-in defaults before it looks at the name, the
  comparison with \<open>defaultSSID\<close> fails, and nothing is written: the record in memory
  is the erased image, not the defaults, and the storage is unchanged. (For every image,
  \<open>loadConfig_keeps_image\<close>; the second sketch resets and persists,
  \<open>loadConfig0_resets\<close>.)
\<close>

theorem loadConfig_erased_storage_keeps_image:
  "config (loadConfig (initial erasedImage)) = erasedImage
   \<and> eeprom (loadConfig (initial erasedImage)) = erasedImage
   \<and> erasedImage \<noteq> defaultConfig"
proof -
  have "koReaderPort erasedImage \<noteq> koReaderPort defaultConfig"
    by (simp add: erasedImage_def defaultConfig_def)
  then have "erasedImage \<noteq> defaultConfig" by auto
  then show ?thesis
    using loadConfig_keeps_image [of "initial erasedImage"] by (simp add: initial_def)
qed


subsection \<open>Leaving the countdown\<close>

text \<open>
  C5, as stated, fails for the normal buttons while the WiFi is down: \<open>handleNormalBtnEvent\<close>
  returns at once, and a pass of \<open>loop\<close> with button A clicked leaves the countdown
  running, the screen flag forced on (it was off before the countdown) and
  \<open>lastRemainingSeconds\<close> at 5.
\<close>

theorem normal_button_ignored_while_disconnected:
  "onCountdown exCountdown
   \<and> wasClicked (btnA exInputs)
   \<and> onCountdown (loop exInputs exCountdown)
   \<and> turnOnScreen (loop exInputs exCountdown)
   \<and> \<not> screenStateBeforeCountdown exCountdown
   \<and> lastRemainingSeconds (loop exInputs exCountdown) = 5"
proof -
  have "wasClicked (btnA exInputs)" by (simp add: exInputs_def pressA_def)
  then show ?thesis by (simp add: loop_exCountdown emit_def exCountdown_fields)
qed


text \<open>
  C5, amended. Let the idle-timer evaluation enter the countdown from a state \<open>s0\<close>,
  and let any number of passes of \<open>loop\<close> follow that register no activity and stay in
  the countdown window. Then \<open>onCountdown\<close> is set and \<open>screenStateBeforeCountdown\<close>
  holds the value that \<open>turnOnScreen\<close> had in \<open>s0\<close>, immediately before the countdown
  was entered. A click or hold of a normal button while the WiFi is connected, and a
  click of the power key, set \<open>lastActiveTime\<close> to the time of the event and
  \<open>lastRemainingSeconds\<close> to \<open>-1\<close>; the idle-timer evaluation that follows, as long
  as the time since the event is in the active window, clears \<open>onCountdown\<close> and sets
  \<open>turnOnScreen\<close> back to exactly the value it had in \<open>s0\<close>.
\<close>

theorem activity_leaves_countdown:
  assumes entry: "\<not> onCountdown s0" "shutdownCountdownScreen (config s0)"
      "idleWindow (config s0) (t0 - lastActiveTime s0)"
    and later: "countdownPasses ps (handleAutoShutdown t0 s0)"
    and s: "s = passes ps (handleAutoShutdown t0 s0)"
    and active: "activeWindow (config s0) (now - t)"
  shows "onCountdown s
       \<and> screenStateBeforeCountdown s = turnOnScreen s0
       \<and> (wasClicked btn \<or> wasHold btn \<longrightarrow>
            \<not> onCountdown (handleAutoShutdown now (handleNormalBtnEvent True btn t ca ha s))
          \<and> turnOnScreen (handleAutoShutdown now (handleNormalBtnEvent True btn t ca ha s))
              = turnOnScreen s0
          \<and> lastActiveTime (handleAutoShutdown now (handleNormalBtnEvent True btn t ca ha s)) = t
          \<and> lastRemainingSeconds (handleAutoShutdown now (handleNormalBtnEvent True btn t ca ha s))
              = - 1)
       \<and> (fst (isPWRBtnClicked pin tp s) \<longrightarrow>
            \<not> onCountdown (handleAutoShutdown now (handlePWRBtnEvent pin tp t s))
          \<and> turnOnScreen (handleAutoShutdown now (handlePWRBtnEvent pin tp t s)) = turnOnScreen s0
          \<and> lastActiveTime (handleAutoShutdown now (handlePWRBtnEvent pin tp t s)) = t
          \<and> lastRemainingSeconds (handleAutoShutdown now (handlePWRBtnEvent pin tp t s)) = - 1)"
proof -
  let ?e = "handleAutoShutdown t0 s0"
  have e: "?e = handleShutdownCountdown t0 (t0 - lastActiveTime s0) s0"
    using entry(3) by (rule handleAutoShutdown_countdown)
  have e1: "onCountdown ?e" "screenStateBeforeCountdown ?e = turnOnScreen s0"
    "config ?e = config s0"
    unfolding e using handleShutdownCountdown_entry [OF entry(1,2)]
    by (simp_all add: handleShutdownCountdown_fields)
  have k: "countdownFrom ?e s"
    unfolding s using e1(1) later by (rule countdown_passes_keep)
  have c: "onCountdown s" "screenStateBeforeCountdown s = turnOnScreen s0" "config s = config s0"
    using k e1 by (simp_all add: countdownFrom_def)
  have a: "activeWindow (config s) (now - t)" using active c by simp
  have n: "wasClicked btn \<or> wasHold btn \<longrightarrow>
            \<not> onCountdown (handleAutoShutdown now (handleNormalBtnEvent True btn t ca ha s))
          \<and> turnOnScreen (handleAutoShutdown now (handleNormalBtnEvent True btn t ca ha s))
              = turnOnScreen s0
          \<and> lastActiveTime (handleAutoShutdown now (handleNormalBtnEvent True btn t ca ha s)) = t
          \<and> lastRemainingSeconds (handleAutoShutdown now (handleNormalBtnEvent True btn t ca ha s))
              = - 1"
  proof
    assume b: "wasClicked btn \<or> wasHold btn"
    let ?x = "handleNormalBtnEvent True btn t ca ha s"
    note f = handleNormalBtnEvent_activity [OF b, of t ca ha s]
    have "handleAutoShutdown now ?x
            = ?x\<lparr>turnOnScreen := screenStateBeforeCountdown ?x, onCountdown := False\<rparr>"
      using a c by (intro handleAutoShutdown_active) (simp_all add: f)
    then show "\<not> onCountdown (handleAutoShutdown now ?x)
          \<and> turnOnScreen (handleAutoShutdown now ?x) = turnOnScreen s0
          \<and> lastActiveTime (handleAutoShutdown now ?x) = t
          \<and> lastRemainingSeconds (handleAutoShutdown now ?x) = - 1"
      using c by (simp add: f)
  qed
  have p: "fst (isPWRBtnClicked pin tp s) \<longrightarrow>
            \<not> onCountdown (handleAutoShutdown now (handlePWRBtnEvent pin tp t s))
          \<and> turnOnScreen (handleAutoShutdown now (handlePWRBtnEvent pin tp t s)) = turnOnScreen s0
          \<and> lastActiveTime (handleAutoShutdown now (handlePWRBtnEvent pin tp t s)) = t
          \<and> lastRemainingSeconds (handleAutoShutdown now (handlePWRBtnEvent pin tp t s)) = - 1"
  proof
    assume b: "fst (isPWRBtnClicked pin tp s)"
    let ?x = "handlePWRBtnEvent pin tp t s"
    note f = handlePWRBtnEvent_activity [OF b, of t]
    have "handleAutoShutdown now ?x
            = ?x\<lparr>turnOnScreen := screenStateBeforeCountdown ?x, onCountdown := False\<rparr>"
      using a c by (intro handleAutoShutdown_active) (simp_all add: f)
    then show "\<not> onCountdown (handleAutoShutdown now ?x)
          \<and> turnOnScreen (handleAutoShutdown now ?x) = turnOnScreen s0
          \<and> lastActiveTime (handleAutoShutdown now ?x) = t
          \<and> lastRemainingSeconds (handleAutoShutdown now ?x) = - 1"
      using c by (simp add: f)
  qed
  from c(1,2) n p show ?thesis by blast
qed

theorem activity_leaves_countdown_witness:
  "\<not> onCountdown ((initial defaultConfig)\<lparr>turnOnScreen := False\<rparr>)
   \<and> shutdownCountdownScreen (config ((initial defaultConfig)\<lparr>turnOnScreen := False\<rparr>))
   \<and> idleWindow (config ((initial defaultConfig)\<lparr>turnOnScreen := False\<rparr>))
        (595000 - lastActiveTime ((initial defaultConfig)\<lparr>turnOnScreen := False\<rparr>))
   \<and> countdownPasses [exKeyDown]
        (handleAutoShutdown 595000 ((initial defaultConfig)\<lparr>turnOnScreen := False\<rparr>))
   \<and> activeWindow (config ((initial defaultConfig)\<lparr>turnOnScreen := False\<rparr>)) (596200 - 596100)
   \<and> (wasClicked pressA \<or> wasHold pressA)
   \<and> fst (isPWRBtnClicked False 596100
             (passes [exKeyDown]
                (handleAutoShutdown 595000 ((initial defaultConfig)\<lparr>turnOnScreen := False\<rparr>))))
   \<and> \<not> turnOnScreen ((initial defaultConfig)\<lparr>turnOnScreen := False\<rparr>)
   \<and> turnOnScreen (handleAutoShutdown 595000 ((initial defaultConfig)\<lparr>turnOnScreen := False\<rparr>))
   \<and> \<not> turnOnScreen
         (handleAutoShutdown 596200
            (handleNormalBtnEvent True pressA 596100 1 2
               (passes [exKeyDown]
                  (handleAutoShutdown 595000 ((initial defaultConfig)\<lparr>turnOnScreen := False\<rparr>)))))
   \<and> \<not> turnOnScreen
         (handleAutoShutdown 596200
            (handlePWRBtnEvent False 596100 596100
               (passes [exKeyDown]
                  (handleAutoShutdown 595000 ((initial defaultConfig)\<lparr>turnOnScreen := False\<rparr>)))))
   \<and> \<not> onCountdown
         (handleAutoShutdown 596200
            (handlePWRBtnEvent False 596100 596100
               (passes [exKeyDown]
                  (handleAutoShutdown 595000 ((initial defaultConfig)\<lparr>turnOnScreen := False\<rparr>)))))"
proof -
  let ?z = "(initial defaultConfig)\<lparr>turnOnScreen := False\<rparr>"
  let ?x = "passes [exKeyDown] (handleAutoShutdown 595000 ?z)"
  have c: "config ?z = defaultConfig" "lastActiveTime ?z = 0" "\<not> turnOnScreen ?z"
    by (simp_all add: initial_def)
  have d: "shutdownCountdownScreen defaultConfig" by (simp add: defaultConfig_def)
  have h1: "\<not> onCountdown ?z" by (simp add: initial_def)
  have h2: "shutdownCountdownScreen (config ?z)" by (simp add: c d)
  have h3: "idleWindow (config ?z) (595000 - lastActiveTime ?z)"
    by (simp add: c idleWindow_def thresholds_default)
  have h4: "countdownPasses [exKeyDown] (handleAutoShutdown 595000 ?z)"
    unfolding exCountdown_entered by (rule exKeyDown_quiet)
  have h5: "?x = passes [exKeyDown] (handleAutoShutdown 595000 ?z)" by (rule refl)
  have h6: "activeWindow (config ?z) (596200 - 596100)"
    by (simp add: c activeWindow_def thresholds_default)
  have h7: "wasClicked pressA \<or> wasHold pressA" by (simp add: pressA_def)
  have h8: "fst (isPWRBtnClicked False 596100 ?x)"
    unfolding exCountdown_entered
    by (simp add: isPWRBtnClicked_def Let_def loop_exKeyDown_key longPressDuration_def)
  have on: "turnOnScreen (handleAutoShutdown 595000 ?z)"
    unfolding exCountdown_entered by (simp add: exCountdown_fields)
  note t = activity_leaves_countdown [OF h1 h2 h3 h4 h5 h6, of pressA 1 2 False 596100]
  show ?thesis
    using t h1 h2 h3 h4 h6 h7 h8 on c(3) by blast
qed


subsection \<open>Countdown longer than the timeout\<close>

text \<open>
  C6, as stated, fails: nothing clamps the window. With a timeout of 10 s and a countdown
  of 20 s the product \<open>(10 - 20) * 1000\<close> becomes the unsigned value 4294957296; at 5 s
  idle, inside the clamped window of the spec, the evaluation is not in the countdown
  and changes nothing.
\<close>

theorem countdown_window_not_clamped:
  "sint (autoShutdownTime (config exMisconfigured)) \<le> sint (countdownTime (config exMisconfigured))
   \<and> clampedCountdownStart (config exMisconfigured) \<le> 5000
   \<and> uint (countdownThreshold (config exMisconfigured)) = 4294957296
   \<and> \<not> idleWindow (config exMisconfigured) (5000 - lastActiveTime exMisconfigured)
   \<and> handleAutoShutdown 5000 exMisconfigured = exMisconfigured"
  by (simp add: exMisconfigured_fields clampedCountdownStart_def countdownThreshold_def
      shutdownThreshold_def idleWindow_def handleAutoShutdown_def Let_def)


text \<open>
  C6, amended. For every configuration with \<open>0 \<le> autoShutdownTime < countdownTime\<close>
  whose products stay in the range of \<open>int\<close>, the countdown threshold converts to an
  unsigned value of at least \<open>2^31\<close>, above the shut-down threshold: the idle-timer
  evaluation never enters the countdown, it powers off or stays active.
\<close>

theorem countdown_threshold_wraps:
  assumes "0 \<le> sint (autoShutdownTime (config s))"
    and "sint (autoShutdownTime (config s)) * 1000 < 2 ^ 31"
    and "sint (autoShutdownTime (config s)) < sint (countdownTime (config s))"
    and "- (2 ^ 31) \<le> (sint (autoShutdownTime (config s)) - sint (countdownTime (config s))) * 1000"
  shows "2 ^ 31 \<le> uint (countdownThreshold (config s))
       \<and> uint (shutdownThreshold (config s)) < 2 ^ 31
       \<and> \<not> idleWindow (config s) (now - lastActiveTime s)
       \<and> handleAutoShutdown now s
           = (if shutdownThreshold (config s) \<le> now - lastActiveTime s then powerOff s
              else if onCountdown s
              then s\<lparr>turnOnScreen := screenStateBeforeCountdown s, onCountdown := False\<rparr>
              else s)"
proof -
  let ?a = "autoShutdownTime (config s)" and ?c = "countdownTime (config s)"
  have p: "(2 :: int) ^ 31 = 2147483648" "(2 :: int) ^ 32 = 4294967296" by simp_all
  have u1: "uint (shutdownThreshold (config s)) = sint ?a * 1000"
    unfolding shutdownThreshold_def using assms(1,2) by (rule uint_times_1000)
  have u2: "uint (countdownThreshold (config s)) = 2 ^ 32 + (sint ?a - sint ?c) * 1000"
    unfolding countdownThreshold_def using assms(3,4) by (rule uint_neg_product)
  have lo: "2 ^ 31 \<le> uint (countdownThreshold (config s))"
    unfolding u2 using assms(4) unfolding p by linarith
  have hi: "uint (shutdownThreshold (config s)) < 2 ^ 31"
    unfolding u1 using assms(2) .
  have imp: "countdownThreshold (config s) \<le> x \<Longrightarrow> shutdownThreshold (config s) \<le> x" for x
    using lo hi unfolding word_le_def by linarith
  then have nw: "\<not> idleWindow (config s) (now - lastActiveTime s)"
    by (auto simp: idleWindow_def)
  have "handleAutoShutdown now s
           = (if shutdownThreshold (config s) \<le> now - lastActiveTime s then powerOff s
              else if onCountdown s
              then s\<lparr>turnOnScreen := screenStateBeforeCountdown s, onCountdown := False\<rparr>
              else s)"
    using imp [of "now - lastActiveTime s"] by (auto simp: handleAutoShutdown_def Let_def)
  with lo hi nw show ?thesis by blast
qed

theorem countdown_threshold_wraps_witness:
  "0 \<le> sint (autoShutdownTime (config exMisconfigured))
   \<and> sint (autoShutdownTime (config exMisconfigured)) * 1000 < 2 ^ 31
   \<and> sint (autoShutdownTime (config exMisconfigured)) < sint (countdownTime (config exMisconfigured))
   \<and> - (2 ^ 31) \<le> (sint (autoShutdownTime (config exMisconfigured))
                      - sint (countdownTime (config exMisconfigured))) * 1000
   \<and> handleAutoShutdown 9999 exMisconfigured = exMisconfigured
   \<and> handleAutoShutdown 10000 exMisconfigured = powerOff exMisconfigured"
proof -
  have h1: "0 \<le> sint (autoShutdownTime (config exMisconfigured))"
    by (simp add: exMisconfigured_fields)
  have h2: "sint (autoShutdownTime (config exMisconfigured)) * 1000 < 2 ^ 31"
    by (simp add: exMisconfigured_fields)
  have h3: "sint (autoShutdownTime (config exMisconfigured))
              < sint (countdownTime (config exMisconfigured))"
    by (simp add: exMisconfigured_fields)
  have h4: "- (2 ^ 31) \<le> (sint (autoShutdownTime (config exMisconfigured))
                      - sint (countdownTime (config exMisconfigured))) * 1000"
    by (simp add: exMisconfigured_fields)
  show ?thesis
    using countdown_threshold_wraps [OF h1 h2 h3 h4, of 9999]
      countdown_threshold_wraps [OF h1 h2 h3 h4, of 10000] h1 h2 h3 h4
    by (simp add: exMisconfigured_fields shutdownThreshold_def)
qed


subsection \<open>Saving the form\<close>

text \<open>
  C7 fails on the code. A submitted name of 32 characters fills \<open>config.ssid\<close> and leaves
  no terminator (\<open>strncpy\<close> with the full size of the array); the record is persisted so.
  A field is terminated exactly when the submitted value is shorter than the array
  (\<open>terminated_strncpy\<close>).
\<close>

theorem handleSave_long_ssid_unterminated:
  "ssid (config (handleSave [''ssid'' \<mapsto> replicate 32 (CHR ''a'')] (initial defaultConfig)))
     = replicate 32 (CHR ''a'')
   \<and> \<not> terminated
         (ssid (config (handleSave [''ssid'' \<mapsto> replicate 32 (CHR ''a'')] (initial defaultConfig))))
   \<and> ssid (eeprom (handleSave [''ssid'' \<mapsto> replicate 32 (CHR ''a'')] (initial defaultConfig)))
     = replicate 32 (CHR ''a'')"
  by (simp add: handleSave_def Let_def restart_def emit_def saveConfig_def arg_def
      strncpy_32_a terminated_def NUL_def)







subsection \<open>Screen during the countdown\<close>

text \<open>
  C9, as stated, fails when the countdown prompt is disabled: with
  \<open>shutdownCountdownScreen\<close> off and the screen switched off, a pass of \<open>loop\<close> at 595 s
  idle, inside the countdown window, puts the display to sleep and leaves the flag off.
\<close>

theorem countdown_screen_not_forced_when_prompt_disabled:
  "idleWindow (config exNoPrompt) (millisShutdown exIdleInputs - lastActiveTime exNoPrompt)
   \<and> \<not> turnOnScreen (loop exIdleInputs exNoPrompt)
   \<and> trace (loop exIdleInputs exNoPrompt) = [DisplaySleep]"
proof -
  have "idleWindow (config exNoPrompt) (millisShutdown exIdleInputs - lastActiveTime exNoPrompt)"
    by (simp add: idleWindow_def exNoPrompt_fields thresholds_noPrompt exIdleInputs_def)
  then show ?thesis by (simp add: loop_exNoPrompt emit_def exNoPrompt_fields)
qed


text \<open>
  C9, amended. With \<open>shutdownCountdownScreen\<close> enabled, every idle-timer evaluation in
  the countdown window sets \<open>turnOnScreen\<close> and \<open>onCountdown\<close>, whatever the flag,
  \<open>keepScreenOn\<close> and \<open>delayToTurnOffScreen\<close> were; the next \<open>handleScreenSwitch\<close>
  then wakes the display and draws nothing else, unless the delayed screen-off fires in
  that pass.
\<close>

theorem countdown_forces_screen_when_prompt_enabled:
  assumes "idleWindow (config s) (now - lastActiveTime s)"
    and "shutdownCountdownScreen (config s)"
  shows "turnOnScreen (handleAutoShutdown now s)
       \<and> onCountdown (handleAutoShutdown now s)
       \<and> (\<not> (delayToTurnOffScreen s \<and> \<not> keepScreenOn (config s)
                \<and> 5000 < millisScreen i - lastActiveTime s)
            \<longrightarrow> handleScreenSwitch i (handleAutoShutdown now s)
                  = emit DisplayWakeup (handleAutoShutdown now s))"
proof -
  let ?s = "handleAutoShutdown now s"
  have e: "?s = handleShutdownCountdown now (now - lastActiveTime s) s"
    using assms(1) by (rule handleAutoShutdown_countdown)
  have f: "turnOnScreen ?s" "onCountdown ?s"
    unfolding e using handleShutdownCountdown_forces [OF assms(2)] by simp_all
  have g: "config ?s = config s" "lastActiveTime ?s = lastActiveTime s"
    "delayToTurnOffScreen ?s = delayToTurnOffScreen s"
    unfolding e by (simp_all add: handleShutdownCountdown_fields)
  have "\<not> (delayToTurnOffScreen s \<and> \<not> keepScreenOn (config s)
                \<and> 5000 < millisScreen i - lastActiveTime s)
            \<longrightarrow> handleScreenSwitch i ?s = emit DisplayWakeup ?s"
    using f g by (simp add: handleScreenSwitch_def Let_def emit_def)
  with f show ?thesis by blast
qed

theorem countdown_forces_screen_when_prompt_enabled_witness:
  "idleWindow (config ((initial defaultConfig)\<lparr>turnOnScreen := False\<rparr>))
     (595000 - lastActiveTime ((initial defaultConfig)\<lparr>turnOnScreen := False\<rparr>))
   \<and> shutdownCountdownScreen (config ((initial defaultConfig)\<lparr>turnOnScreen := False\<rparr>))
   \<and> \<not> (delayToTurnOffScreen ((initial defaultConfig)\<lparr>turnOnScreen := False\<rparr>)
         \<and> \<not> keepScreenOn (config ((initial defaultConfig)\<lparr>turnOnScreen := False\<rparr>))
         \<and> 5000 < millisScreen exInputs
                    - lastActiveTime ((initial defaultConfig)\<lparr>turnOnScreen := False\<rparr>))
   \<and> \<not> turnOnScreen ((initial defaultConfig)\<lparr>turnOnScreen := False\<rparr>)
   \<and> turnOnScreen exCountdown
   \<and> handleScreenSwitch exInputs exCountdown = emit DisplayWakeup exCountdown"
proof -
  let ?s = "(initial defaultConfig)\<lparr>turnOnScreen := False\<rparr>"
  have c: "config ?s = defaultConfig" "lastActiveTime ?s = 0" "\<not> delayToTurnOffScreen ?s"
    by (simp_all add: initial_def)
  have h1: "idleWindow (config ?s) (595000 - lastActiveTime ?s)"
    by (simp add: c idleWindow_def thresholds_default)
  have d: "shutdownCountdownScreen defaultConfig" by (simp add: defaultConfig_def)
  have h2: "shutdownCountdownScreen (config ?s)"
    by (simp add: c d)
  have h3: "\<not> (delayToTurnOffScreen ?s \<and> \<not> keepScreenOn (config ?s)
         \<and> 5000 < millisScreen exInputs - lastActiveTime ?s)"
    by (simp add: c)
  show ?thesis
    using countdown_forces_screen_when_prompt_enabled [OF h1 h2, of exInputs] h1 h2 h3
    unfolding exCountdown_def [symmetric]
    by simp
qed


subsection \<open>Unknown action codes\<close>

text \<open>
  C10. For every action code other than 0, 1, 2 and 3, \<open>sendRequest\<close> returns the state
  it was given: no request, no change. \<open>handleSave\<close> stores whatever \<open>toInt\<close> yields
  for the four action fields, so such codes can be configured (7 in the witness).
\<close>

theorem sendRequest_unknown_action_noop:
  assumes "action \<notin> {0, 1, 2, 3}"
  shows "sendRequest connected action s = s
       \<and> aBtnClickAction (config (handleSave form s)) = toInt (arg form ''aClick'')
       \<and> aBtnHoldAction (config (handleSave form s)) = toInt (arg form ''aLong'')
       \<and> bBtnClickAction (config (handleSave form s)) = toInt (arg form ''bClick'')
       \<and> bBtnHoldAction (config (handleSave form s)) = toInt (arg form ''bLong'')"
  using assms
  by (simp add: sendRequest_def handleSave_def Let_def restart_def emit_def saveConfig_def)

theorem sendRequest_unknown_action_noop_witness:
  "(7 :: int32) \<notin> {0, 1, 2, 3}
   \<and> sendRequest True 7 (initial defaultConfig) = initial defaultConfig
   \<and> aBtnClickAction (config (handleSave [''aClick'' \<mapsto> ''7''] (initial defaultConfig))) = 7"
proof -
  have h: "(7 :: int32) \<notin> {0, 1, 2, 3}" by simp
  show ?thesis
    using sendRequest_unknown_action_noop [OF h, of True "initial defaultConfig" "[''aClick'' \<mapsto> ''7'']"] h
    by (simp add: arg_def toInt_7)
qed


end
